theory Spec2Isabelle
  imports Complex_Main "HOL-Library.Sublist"
begin

section \<open>The ETF holdings tracker (src/main.py)\<close>

text \<open>
  The program fetches a CSV feed, extracts the rows of two tracked tickers, compares
  them with the last stored record of each ticker, alerts a Discord webhook when the
  share count changed and appends to a per-ticker history kept in a JSON file.

  Conventions of the embedding.
  \<^item> Python \<open>str\<close> is modelled by \<open>string\<close>; \<open>upper\<close>, \<open>strip\<close> and the float syntax are
    modelled for ASCII text, where they are exact.
  \<^item> A Python exception is a value of type \<open>error\<close>; a function that can raise returns
    \<open>error + 'a\<close> with \<open>Inl\<close> the exception.
  \<^item> A Python \<open>float\<close> is a value of \<open>pyfloat\<close>: a rational that binary64 represents, an
    infinity or NaN. Results of float operations are rounded to binary64 by
    \<open>round_b64\<close>. The sign of zero is not kept (nothing modelled here observes it).
  \<^item> The lines handed to \<open>parse_csv\<close> come from \<open>str.splitlines\<close>, so a line holds no
    line break; \<open>csv_row\<close> models \<open>csv.reader\<close> on such a line.
\<close>

subsection \<open>Exceptions\<close>

datatype error =
    FetchError                \<comment> \<open>\<open>requests.get\<close> or \<open>raise_for_status\<close> raised\<close>
  | HeaderNotFound            \<comment> \<open>\<open>ValueError("Could not find header row in CSV")\<close>\<close>
  | ValueError_float string   \<comment> \<open>\<open>float(s)\<close>: could not convert string to float\<close>
  | ValueError_nan            \<comment> \<open>\<open>int(nan)\<close>: cannot convert float NaN to integer\<close>
  | ValueError_index string   \<comment> \<open>\<open>list.index(x)\<close>: x is not in list\<close>
  | ValueError_format         \<comment> \<open>format code \<open>f\<close> applied to a \<open>str\<close>\<close>
  | OverflowError             \<comment> \<open>\<open>int(inf)\<close>, or an int too large for a float\<close>
  | IndexError                \<comment> \<open>list index out of range\<close>
  | TypeError                 \<comment> \<open>unsupported operand types\<close>
  | ZeroDivisionError         \<comment> \<open>division by zero\<close>
  | TransportError            \<comment> \<open>\<open>requests.post\<close> raised\<close>

subsection \<open>Strings: \<open>str.upper\<close>, \<open>str.strip\<close>, \<open>str.replace\<close>\<close>

definition upper_char :: "char \<Rightarrow> char" where
  "upper_char c =
     (case map_of (zip ''abcdefghijklmnopqrstuvwxyz'' ''ABCDEFGHIJKLMNOPQRSTUVWXYZ'') c of
        Some u \<Rightarrow> u
      | None \<Rightarrow> c)"

definition upper :: "string \<Rightarrow> string" where
  "upper s = map upper_char s"

text \<open>The ASCII characters for which \<open>str.isspace\<close> holds; \<open>str.strip()\<close> removes them.\<close>

definition isspace :: "char \<Rightarrow> bool" where
  "isspace c \<longleftrightarrow>
     c \<in> set [CHR 0x09, CHR 0x0A, CHR 0x0B, CHR 0x0C, CHR 0x0D,
               CHR 0x1C, CHR 0x1D, CHR 0x1E, CHR 0x1F, CHR 0x20]"

definition strip :: "string \<Rightarrow> string" where
  "strip s = rev (dropWhile isspace (rev (dropWhile isspace s)))"

text \<open>\<open>s.replace(c, '')\<close> for a single character \<open>c\<close>: every occurrence is removed.\<close>

definition remove_char :: "char \<Rightarrow> string \<Rightarrow> string" where
  "remove_char c s = filter (\<lambda>x. x \<noteq> c) s"

subsection \<open>List access as Python does it\<close>

text \<open>\<open>xs[i]\<close>: a negative index counts from the end, an index out of range raises.\<close>

definition py_get :: "'a list \<Rightarrow> int \<Rightarrow> error + 'a" where
  "py_get xs i =
     (if 0 \<le> i \<and> i < int (length xs) then Inr (xs ! nat i)
      else if i < 0 \<and> - int (length xs) \<le> i then Inr (xs ! nat (int (length xs) + i))
      else Inl IndexError)"

text \<open>\<open>next((i for i, h in enumerate(xs) if P(h)), -1)\<close>.\<close>

fun first_index_from :: "int \<Rightarrow> ('a \<Rightarrow> bool) \<Rightarrow> 'a list \<Rightarrow> int" where
  "first_index_from i P [] = -1"
| "first_index_from i P (h # hs) = (if P h then i else first_index_from (i + 1) P hs)"

definition first_index :: "('a \<Rightarrow> bool) \<Rightarrow> 'a list \<Rightarrow> int" where
  "first_index P xs = first_index_from 0 P xs"

text \<open>\<open>xs.index(x)\<close>, on a list of strings.\<close>

definition list_index :: "string \<Rightarrow> string list \<Rightarrow> error + int" where
  "list_index x xs =
     (let i = first_index (\<lambda>h. h = x) xs in if i = -1 then Inl (ValueError_index x) else Inr i)"

subsection \<open>\<open>csv.reader\<close> on one line (excel dialect, not strict)\<close>

datatype csv_state = START_RECORD | START_FIELD | IN_FIELD | IN_QUOTED_FIELD | QUOTE_IN_QUOTED_FIELD

text \<open>
  \<open>csv_parse st field fields cs\<close>: the reader in state \<open>st\<close>, with the characters of the
  current field in \<open>field\<close> and the finished fields in \<open>fields\<close>, reads \<open>cs\<close> to the end of
  the line. An empty line gives the empty row; in every other state the end of the line
  closes the current field (an unterminated quoted field included). The first character
  of a record is handled as the start of a field.
\<close>

fun csv_parse :: "csv_state \<Rightarrow> string \<Rightarrow> string list \<Rightarrow> string \<Rightarrow> string list" where
  "csv_parse START_RECORD field fields [] = fields"
| "csv_parse st field fields [] = fields @ [field]"
| "csv_parse START_RECORD field fields (c # cs) =
     (if c = CHR 0x22 then csv_parse IN_QUOTED_FIELD field fields cs
      else if c = CHR '','' then csv_parse START_FIELD [] (fields @ [field]) cs
      else csv_parse IN_FIELD (field @ [c]) fields cs)"
| "csv_parse START_FIELD field fields (c # cs) =
     (if c = CHR 0x22 then csv_parse IN_QUOTED_FIELD field fields cs
      else if c = CHR '','' then csv_parse START_FIELD [] (fields @ [field]) cs
      else csv_parse IN_FIELD (field @ [c]) fields cs)"
| "csv_parse IN_FIELD field fields (c # cs) =
     (if c = CHR '','' then csv_parse START_FIELD [] (fields @ [field]) cs
      else csv_parse IN_FIELD (field @ [c]) fields cs)"
| "csv_parse IN_QUOTED_FIELD field fields (c # cs) =
     (if c = CHR 0x22 then csv_parse QUOTE_IN_QUOTED_FIELD field fields cs
      else csv_parse IN_QUOTED_FIELD (field @ [c]) fields cs)"
| "csv_parse QUOTE_IN_QUOTED_FIELD field fields (c # cs) =
     (if c = CHR 0x22 then csv_parse IN_QUOTED_FIELD (field @ [c]) fields cs
      else if c = CHR '','' then csv_parse START_FIELD [] (fields @ [field]) cs
      else csv_parse IN_FIELD (field @ [c]) fields cs)"

definition csv_row :: "string \<Rightarrow> string list" where
  "csv_row line = csv_parse START_RECORD [] [] line"

text \<open>\<open>[c.strip() for c in next(csv.reader([line]))]\<close>\<close>

definition split_cols :: "string \<Rightarrow> string list" where
  "split_cols line = map strip (csv_row line)"

subsection \<open>Python floats\<close>

datatype pyfloat = Finite rat | PosInf | NegInf | NaN

definition pow2 :: "int \<Rightarrow> rat" where
  "pow2 e = (if 0 \<le> e then 2 ^ nat e else 1 / 2 ^ nat (- e))"

definition pow10 :: "int \<Rightarrow> rat" where
  "pow10 e = (if 0 \<le> e then 10 ^ nat e else 1 / 10 ^ nat (- e))"

function bitlen :: "int \<Rightarrow> int" where
  "bitlen n = (if n \<le> 0 then 0 else 1 + bitlen (n div 2))"
  by pat_completeness auto
termination
  by (relation "measure nat") auto

declare bitlen.simps [simp del]

text \<open>The integer part of the binary logarithm of a positive rational.\<close>

definition ilog2 :: "rat \<Rightarrow> int" where
  "ilog2 a =
     (let e = bitlen (fst (quotient_of a)) - bitlen (snd (quotient_of a))
      in if pow2 e \<le> a then e else e - 1)"

definition round_half_even :: "rat \<Rightarrow> int" where
  "round_half_even x =
     (let f = \<lfloor>x\<rfloor>; d = x - of_int f
      in if d < 1 / 2 then f else if 1 / 2 < d then f + 1 else if even f then f else f + 1)"

text \<open>
  Rounding to binary64, to nearest with ties to even: 53 significant bits, the exponent
  of the last bit no smaller than \<open>-1074\<close> (subnormal numbers), an infinity from
  \<open>2 ^ 1024\<close> on.
\<close>

definition round_b64 :: "rat \<Rightarrow> pyfloat" where
  "round_b64 x =
     (if x = 0 then Finite 0
      else
        let a = \<bar>x\<bar>;
            q = max (ilog2 a - 52) (- 1074);
            r = of_int (round_half_even (a / pow2 q)) * pow2 q
        in if pow2 1024 \<le> r then (if 0 < x then PosInf else NegInf)
           else Finite (if 0 < x then r else - r))"

text \<open>\<open>float(n)\<close> for an int, as the mixed operations below convert their int operand.\<close>

definition float_of_int :: "int \<Rightarrow> error + pyfloat" where
  "float_of_int n =
     (case round_b64 (of_int n) of Finite r \<Rightarrow> Inr (Finite r) | _ \<Rightarrow> Inl OverflowError)"

text \<open>\<open>int(x)\<close> for a float: truncation towards zero.\<close>

definition int_of_float :: "pyfloat \<Rightarrow> error + int" where
  "int_of_float x =
     (case x of
        Finite r \<Rightarrow> Inr (if 0 \<le> r then \<lfloor>r\<rfloor> else \<lceil>r\<rceil>)
      | PosInf \<Rightarrow> Inl OverflowError
      | NegInf \<Rightarrow> Inl OverflowError
      | NaN \<Rightarrow> Inl ValueError_nan)"

fun float_neg :: "pyfloat \<Rightarrow> pyfloat" where
  "float_neg (Finite r) = Finite (- r)"
| "float_neg PosInf = NegInf"
| "float_neg NegInf = PosInf"
| "float_neg NaN = NaN"

fun float_sub :: "pyfloat \<Rightarrow> pyfloat \<Rightarrow> pyfloat" where
  "float_sub NaN y = NaN"
| "float_sub x NaN = NaN"
| "float_sub (Finite a) (Finite b) = round_b64 (a - b)"
| "float_sub (Finite a) y = float_neg y"
| "float_sub PosInf PosInf = NaN"
| "float_sub NegInf NegInf = NaN"
| "float_sub x y = x"

fun float_mul :: "pyfloat \<Rightarrow> pyfloat \<Rightarrow> pyfloat" where
  "float_mul NaN y = NaN"
| "float_mul x NaN = NaN"
| "float_mul (Finite a) (Finite b) = round_b64 (a * b)"
| "float_mul (Finite a) y = (if a = 0 then NaN else if 0 < a then y else float_neg y)"
| "float_mul x (Finite b) = (if b = 0 then NaN else if 0 < b then x else float_neg x)"
| "float_mul x y = (if x = y then PosInf else NegInf)"

text \<open>\<open>x / y\<close> on floats, for a divisor other than zero.\<close>

fun float_div :: "pyfloat \<Rightarrow> pyfloat \<Rightarrow> pyfloat" where
  "float_div NaN y = NaN"
| "float_div x NaN = NaN"
| "float_div (Finite a) (Finite b) = round_b64 (a / b)"
| "float_div (Finite a) y = Finite 0"
| "float_div x (Finite b) = (if 0 < b then x else float_neg x)"
| "float_div x y = NaN"

text \<open>\<open>x == y\<close> on floats: NaN equals nothing, itself included.\<close>

definition float_eq :: "pyfloat \<Rightarrow> pyfloat \<Rightarrow> bool" where
  "float_eq x y \<longleftrightarrow> x \<noteq> NaN \<and> y \<noteq> NaN \<and> x = y"

subsection \<open>\<open>float(s)\<close> on a string\<close>

text \<open>The characters \<open>float\<close> strips from both ends of an ASCII string (C's \<open>isspace\<close>).\<close>

definition c_isspace :: "char \<Rightarrow> bool" where
  "c_isspace c \<longleftrightarrow> c \<in> set [CHR 0x09, CHR 0x0A, CHR 0x0B, CHR 0x0C, CHR 0x0D, CHR 0x20]"

definition c_strip :: "string \<Rightarrow> string" where
  "c_strip s = rev (dropWhile c_isspace (rev (dropWhile c_isspace s)))"

definition is_digit :: "char \<Rightarrow> bool" where
  "is_digit c \<longleftrightarrow> c \<in> set ''0123456789''"

definition digit_val :: "char \<Rightarrow> int" where
  "digit_val c =
     (case map_of (zip ''0123456789'' [0, 1, 2, 3, 4, 5, 6, 7, 8, 9]) c of
        Some d \<Rightarrow> d
      | None \<Rightarrow> 0)"

definition digits_val :: "string \<Rightarrow> int" where
  "digits_val ds = foldl (\<lambda>a c. 10 * a + digit_val c) 0 ds"

text \<open>
  An underscore is accepted only between two digits; \<open>prev\<close> is the character before
  the rest of the string (NUL at the start).
\<close>

fun underscores_ok :: "char \<Rightarrow> string \<Rightarrow> bool" where
  "underscores_ok prev [] = (prev \<noteq> CHR ''_'')"
| "underscores_ok prev (c # cs) =
     (if c = CHR ''_'' then is_digit prev \<and> underscores_ok c cs
      else if prev = CHR ''_'' then is_digit c \<and> underscores_ok c cs
      else underscores_ok c cs)"

text \<open>An optional sign: whether it is a minus, and the rest.\<close>

definition parse_sign :: "string \<Rightarrow> bool \<times> string" where
  "parse_sign s =
     (case s of
        [] \<Rightarrow> (False, [])
      | c # r \<Rightarrow> if c = CHR ''-'' then (True, r) else if c = CHR ''+'' then (False, r) else (False, s))"

definition parse_inf_or_nan :: "string \<Rightarrow> pyfloat option" where
  "parse_inf_or_nan s =
     (let u = upper (snd (parse_sign s))
      in if u = ''INF'' \<or> u = ''INFINITY'' then Some (if fst (parse_sign s) then NegInf else PosInf)
         else if u = ''NAN'' then Some NaN
         else None)"

text \<open>
  What follows the digits of the mantissa: nothing, or \<open>e\<close>, an optional sign and at
  least one digit. Anything else is unconverted text, and \<open>float\<close> raises.
\<close>

definition parse_exponent :: "string \<Rightarrow> int option" where
  "parse_exponent s =
     (case s of
        [] \<Rightarrow> Some 0
      | c # r \<Rightarrow>
          if c = CHR ''e'' \<or> c = CHR ''E'' then
            (let ds = snd (parse_sign r)
             in if ds \<noteq> [] \<and> list_all is_digit ds
                then Some (if fst (parse_sign r) then - digits_val ds else digits_val ds)
                else None)
          else None)"

text \<open>
  The decimal syntax: sign, digits, an optional point and digits (a digit on at least one
  side), an optional exponent; without a digit the text may still be an infinity or NaN.
  The value is the decimal number rounded to binary64.
\<close>

definition float_inner :: "string \<Rightarrow> pyfloat option" where
  "float_inner s =
     (let s1 = snd (parse_sign s);
          ip = takeWhile is_digit s1;
          s2 = dropWhile is_digit s1;
          has_point = (s2 \<noteq> [] \<and> hd s2 = CHR ''.'');
          fp = (if has_point then takeWhile is_digit (tl s2) else []);
          s3 = (if has_point then dropWhile is_digit (tl s2) else s2)
      in if ip = [] \<and> fp = [] then parse_inf_or_nan s
         else
           (case parse_exponent s3 of
              None \<Rightarrow> None
            | Some e \<Rightarrow>
                Some (round_b64 ((if fst (parse_sign s) then - 1 else 1)
                        * of_int (digits_val (ip @ fp)) * pow10 (e - int (length fp))))))"

definition py_float :: "string \<Rightarrow> error + pyfloat" where
  "py_float s =
     (let t = c_strip s
      in if \<not> underscores_ok (CHR 0x00) t then Inl (ValueError_float s)
         else
           (case float_inner (remove_char (CHR ''_'') t) of
              None \<Rightarrow> Inl (ValueError_float s)
            | Some x \<Rightarrow> Inr x))"

subsection \<open>The date of a row\<close>

text \<open>
  \<open>datetime.strptime(s, "%m/%d/%Y").strftime("%Y-%m-%d")\<close>, or \<open>s\<close> itself when
  \<open>strptime\<close> raises \<open>ValueError\<close>. The text must be month, day and a year of four
  digits, separated by two slashes, and name a day that exists. The year is printed
  as the C library prints it, without leading zeros.
\<close>

definition nonzero_digit :: "char \<Rightarrow> bool" where
  "nonzero_digit c \<longleftrightarrow> c \<in> set ''123456789''"

definition month_text :: "string \<Rightarrow> bool" where
  "month_text m \<longleftrightarrow>
     (case m of
        [a] \<Rightarrow> nonzero_digit a
      | [a, b] \<Rightarrow> (a = CHR ''0'' \<and> nonzero_digit b) \<or> (a = CHR ''1'' \<and> b \<in> set ''012'')
      | _ \<Rightarrow> False)"

definition day_text :: "string \<Rightarrow> bool" where
  "day_text d \<longleftrightarrow>
     (case d of
        [a] \<Rightarrow> nonzero_digit a
      | [a, b] \<Rightarrow>
          ((a = CHR ''0'' \<or> a = CHR '' '') \<and> nonzero_digit b)
          \<or> (a \<in> set ''12'' \<and> is_digit b)
          \<or> (a = CHR ''3'' \<and> b \<in> set ''01'')
      | _ \<Rightarrow> False)"

definition year_text :: "string \<Rightarrow> bool" where
  "year_text y \<longleftrightarrow> length y = 4 \<and> list_all is_digit y"

definition days_in_month :: "int \<Rightarrow> int \<Rightarrow> int" where
  "days_in_month y m =
     (if m = 2 then (if y mod 4 = 0 \<and> (y mod 100 \<noteq> 0 \<or> y mod 400 = 0) then 29 else 28)
      else if m \<in> set [4, 6, 9, 11] then 30
      else 31)"

definition two_digits :: "string \<Rightarrow> string" where
  "two_digits t =
     (case t of
        [a] \<Rightarrow> [CHR ''0'', a]
      | [a, b] \<Rightarrow> [if a = CHR '' '' then CHR ''0'' else a, b]
      | _ \<Rightarrow> t)"

definition reformat_date :: "string \<Rightarrow> string" where
  "reformat_date s =
     (let m = takeWhile (\<lambda>c. c \<noteq> CHR ''/'') s;
          r = drop (Suc (length m)) s;
          d = takeWhile (\<lambda>c. c \<noteq> CHR ''/'') r;
          y = drop (Suc (length d)) r
      in if length m < length s \<and> length d < length r
            \<and> month_text m \<and> day_text d \<and> year_text y
            \<and> 1 \<le> digits_val y
            \<and> digits_val (two_digits d) \<le> days_in_month (digits_val y) (digits_val m)
         then dropWhile (\<lambda>c. c = CHR ''0'') y @ ''-'' @ two_digits m @ ''-'' @ two_digits d
         else s)"

subsection \<open>The tabular parser: \<open>parse_csv\<close>\<close>

definition TARGET_TICKERS :: "(string \<times> string) list" where
  "TARGET_TICKERS = [(''MAPS'', ''WM Technology Inc''), (''GRWG'', ''GrowGeneration Corp'')]"

record holding =
  date :: string
  shares :: int
  weighting :: pyfloat

type_synonym holdings = "string \<rightharpoonup> holding"

definition has_ticker :: "string list \<Rightarrow> bool" where
  "has_ticker col_upper \<longleftrightarrow> list_ex (\<lambda>h. h \<in> set [''TICKER'', ''STOCKTICKER'']) col_upper"

definition has_shares :: "string list \<Rightarrow> bool" where
  "has_shares col_upper \<longleftrightarrow> ''SHARES'' \<in> set col_upper"

text \<open>
  The header loop over \<open>enumerate(lines[:10])\<close>: the index and the uppercased columns of
  the first line that has a ticker column and a shares column; \<open>None\<close> stands for
  \<open>header_index == -1\<close> after the loop.
\<close>

fun find_header :: "nat \<Rightarrow> string list \<Rightarrow> (nat \<times> string list) option" where
  "find_header i [] = None"
| "find_header i (line # rest) =
     (let col_upper = map upper (split_cols line)
      in if has_ticker col_upper \<and> has_shares col_upper then Some (i, col_upper)
         else find_header (Suc i) rest)"

record columns =
  date_col :: int
  ticker_col :: int
  shares_col :: int
  weight_col :: int

definition resolve_columns :: "string list \<Rightarrow> error + columns" where
  "resolve_columns header =
     (case list_index ''SHARES'' header of
        Inl e \<Rightarrow> Inl e
      | Inr sc \<Rightarrow>
          Inr \<lparr> date_col = first_index (\<lambda>h. h = ''DATE'') header,
                ticker_col = first_index (\<lambda>h. h \<in> set [''TICKER'', ''STOCKTICKER'']) header,
                shares_col = sc,
                weight_col = first_index (\<lambda>h. h \<in> set [''WEIGHTINGS'', ''WEIGHTING'']) header \<rparr>)"

text \<open>
  \<open>cols[date_col] if date_col != -1 and cols[date_col] else datetime.now().strftime(...)\<close>,
  then the attempt to rewrite it; \<open>today\<close> is the date of the run.
\<close>

definition row_date :: "columns \<Rightarrow> string \<Rightarrow> string list \<Rightarrow> error + string" where
  "row_date ci today cols =
     (if date_col ci \<noteq> - 1 then
        (case py_get cols (date_col ci) of
           Inl e \<Rightarrow> Inl e
         | Inr v \<Rightarrow> Inr (reformat_date (if v \<noteq> [] then v else today)))
      else Inr (reformat_date today))"

text \<open>\<open>int(float(cols[shares_col].replace(',', '')))\<close>\<close>

definition row_shares :: "columns \<Rightarrow> string list \<Rightarrow> error + int" where
  "row_shares ci cols =
     (case py_get cols (shares_col ci) of
        Inl e \<Rightarrow> Inl e
      | Inr v \<Rightarrow>
          (case py_float (remove_char (CHR '','') v) of
             Inl e \<Rightarrow> Inl e
           | Inr x \<Rightarrow> int_of_float x))"

text \<open>The weighting: \<open>0.0\<close> unless the column is there and not empty and its text is a float.\<close>

definition row_weighting :: "columns \<Rightarrow> string list \<Rightarrow> pyfloat" where
  "row_weighting ci cols =
     (if weight_col ci \<noteq> - 1 \<and> weight_col ci < int (length cols) \<and> cols ! nat (weight_col ci) \<noteq> []
      then
        (case py_float (strip (remove_char (CHR ''%'') (cols ! nat (weight_col ci)))) of
           Inl e \<Rightarrow> Finite 0
         | Inr x \<Rightarrow> float_div x (Finite 100))
      else Finite 0)"

text \<open>The body of the loop over the lines after the header.\<close>

definition parse_row :: "columns \<Rightarrow> string \<Rightarrow> string \<Rightarrow> holdings \<Rightarrow> error + holdings" where
  "parse_row ci today line holdings =
     (if strip line = [] then Inr holdings
      else
        let cols = split_cols line
        in if int (length cols) \<le> ticker_col ci then Inr holdings
           else
             (case py_get cols (ticker_col ci) of
                Inl e \<Rightarrow> Inl e
              | Inr t \<Rightarrow>
                  if upper t \<notin> set (map fst TARGET_TICKERS) then Inr holdings
                  else
                    (case row_date ci today cols of
                       Inl e \<Rightarrow> Inl e
                     | Inr d \<Rightarrow>
                         (case row_shares ci cols of
                            Inl e \<Rightarrow> Inl e
                          | Inr n \<Rightarrow>
                              Inr (holdings(upper t \<mapsto>
                                \<lparr> date = d, shares = n, weighting = row_weighting ci cols \<rparr>))))))"

fun parse_rows :: "columns \<Rightarrow> string \<Rightarrow> string list \<Rightarrow> holdings \<Rightarrow> error + holdings" where
  "parse_rows ci today [] holdings = Inr holdings"
| "parse_rows ci today (line # rest) holdings =
     (case parse_row ci today line holdings of
        Inl e \<Rightarrow> Inl e
      | Inr holdings' \<Rightarrow> parse_rows ci today rest holdings')"

definition parse_csv :: "string \<Rightarrow> string list \<Rightarrow> error + holdings" where
  "parse_csv today lines =
     (case find_header 0 (take 10 lines) of
        None \<Rightarrow> Inl HeaderNotFound
      | Some (header_index, header) \<Rightarrow>
          (case resolve_columns header of
             Inl e \<Rightarrow> Inl e
           | Inr ci \<Rightarrow> parse_rows ci today (drop (header_index + 1) lines) Map.empty))"

subsection \<open>The persisted document\<close>

text \<open>
  The values of a history entry: what this program writes into one (a date string, an
  int, a float, \<open>None\<close> for a field the record does not have). An entry is a list of
  them, read by position through the document's \<open>fields\<close>. Both keys of the document
  may be missing from the file. \<open>json.dump\<close> followed by \<open>json.load\<close> gives these values
  back as they were (NaN and the infinities included), so the file is modelled by the
  document it holds.
\<close>

datatype jval = JNull | JStr string | JInt int | JFloat pyfloat

type_synonym history = "jval list list"

record document =
  doc_fields :: "string list option"
  doc_data :: "(string \<rightharpoonup> history) option"

definition load_state :: "document option \<Rightarrow> document" where
  "load_state f =
     (case f of
        None \<Rightarrow> \<lparr> doc_fields = Some [''date'', ''shares'', ''weighting''], doc_data = Some Map.empty \<rparr>
      | Some d \<Rightarrow> d)"

text \<open>\<open>state.setdefault("data", {})\<close> and \<open>state.get("fields", ["date", "shares", "weighting"])\<close>\<close>

definition state_data :: "document \<Rightarrow> (string \<rightharpoonup> history)" where
  "state_data state = (case doc_data state of Some d \<Rightarrow> d | None \<Rightarrow> Map.empty)"

definition state_fields :: "document \<Rightarrow> string list" where
  "state_fields state =
     (case doc_fields state of Some f \<Rightarrow> f | None \<Rightarrow> [''date'', ''shares'', ''weighting''])"

text \<open>\<open>data.get(ticker, [])\<close>\<close>

definition data_get :: "(string \<rightharpoonup> history) \<Rightarrow> string \<Rightarrow> history" where
  "data_get data ticker = (case data ticker of Some h \<Rightarrow> h | None \<Rightarrow> [])"

subsection \<open>Python operators on these values\<close>

text \<open>\<open>x == y\<close>: numbers compare by value across int and float, NaN equals nothing.\<close>

fun py_eq :: "jval \<Rightarrow> jval \<Rightarrow> bool" where
  "py_eq JNull JNull = True"
| "py_eq (JStr a) (JStr b) = (a = b)"
| "py_eq (JInt a) (JInt b) = (a = b)"
| "py_eq (JInt a) (JFloat y) = (y = Finite (of_int a))"
| "py_eq (JFloat x) (JInt b) = (x = Finite (of_int b))"
| "py_eq (JFloat x) (JFloat y) = float_eq x y"
| "py_eq x y = False"

definition py_ne :: "jval \<Rightarrow> jval \<Rightarrow> bool" where
  "py_ne x y \<longleftrightarrow> \<not> py_eq x y"

text \<open>\<open>n - y\<close> for an int \<open>n\<close>.\<close>

fun int_sub :: "int \<Rightarrow> jval \<Rightarrow> error + jval" where
  "int_sub n (JInt p) = Inr (JInt (n - p))"
| "int_sub n (JFloat y) =
     (case float_of_int n of Inl e \<Rightarrow> Inl e | Inr x \<Rightarrow> Inr (JFloat (float_sub x y)))"
| "int_sub n y = Inl TypeError"

text \<open>
  \<open>x / y\<close> where \<open>x\<close> is the difference computed by \<open>int_sub\<close> from \<open>y\<close>, so both are ints
  or both are floats; the quotient of two ints is the exact quotient rounded.
\<close>

fun py_truediv :: "jval \<Rightarrow> jval \<Rightarrow> error + jval" where
  "py_truediv (JInt a) (JInt b) =
     (if b = 0 then Inl ZeroDivisionError
      else
        (case round_b64 (of_int a / of_int b) of
           Finite r \<Rightarrow> Inr (JFloat (Finite r))
         | _ \<Rightarrow> Inl OverflowError))"
| "py_truediv (JFloat x) (JFloat y) =
     (if y = Finite 0 then Inl ZeroDivisionError else Inr (JFloat (float_div x y)))"
| "py_truediv x y = Inl TypeError"

text \<open>\<open>x * 100\<close>; a string is repeated.\<close>

fun mul_100 :: "jval \<Rightarrow> error + jval" where
  "mul_100 (JInt n) = Inr (JInt (n * 100))"
| "mul_100 (JFloat x) = Inr (JFloat (float_mul x (Finite 100)))"
| "mul_100 (JStr t) = Inr (JStr (concat (replicate 100 t)))"
| "mul_100 JNull = Inl TypeError"

text \<open>\<open>x > 0\<close> for a number.\<close>

fun gt_0 :: "jval \<Rightarrow> bool" where
  "gt_0 (JInt n) = (0 < n)"
| "gt_0 (JFloat (Finite r)) = (0 < r)"
| "gt_0 (JFloat PosInf) = True"
| "gt_0 x = False"

text \<open>What formatting with \<open>.2f\<close> raises, if anything.\<close>

fun format_2f :: "jval \<Rightarrow> error option" where
  "format_2f (JInt n) = (case float_of_int n of Inl e \<Rightarrow> Some e | Inr x \<Rightarrow> None)"
| "format_2f (JFloat x) = None"
| "format_2f x = Some ValueError_format"

subsection \<open>The notifier: \<open>send_discord_alert\<close>\<close>

text \<open>The record decoded from the last entry of a history (\<open>previous_data\<close>).\<close>

record previous =
  p_date :: jval
  p_shares :: jval
  p_weighting :: jval

text \<open>
  The values the message is rendered from. The rendering itself (grouping separators,
  two decimals) is a function of these values and is not modelled; \<open>a_prev_weighting\<close>
  is \<open>None\<close> where the text says \<open>N/A\<close>.
\<close>

record alert =
  a_ticker :: string
  a_company :: string
  a_date :: string
  a_current_shares :: int
  a_prev_shares :: jval
  a_delta :: jval
  a_percent_change :: jval
  a_increased :: bool
  a_current_weighting :: pyfloat
  a_prev_weighting :: "jval option"

text \<open>What \<open>requests.post\<close> does: it returns a response (status code and text) or raises.\<close>

datatype response = Response nat string | Raises

text \<open>What a run prints, and the messages it hands to the transport.\<close>

datatype event =
    Print_fetching
  | Print_parsing
  | Print_loading
  | Print_not_found string
  | Print_detected string jval int
  | Print_first_time string
  | Print_no_webhook string
  | Print_webhook_failed nat string
  | Print_done
  | Post string alert

text \<open>Sequencing of steps that may raise: the first exception ends the computation.\<close>

definition bind_err :: "error + 'a \<Rightarrow> ('a \<Rightarrow> error + 'b) \<Rightarrow> error + 'b" where
  "bind_err x f = (case x of Inl e \<Rightarrow> Inl e | Inr v \<Rightarrow> f v)"

text \<open>
  Lines 105 to 142 of \<open>send_discord_alert\<close>: the message, \<open>None\<close> when the function
  returns at \<open>delta == 0\<close>, or the exception an operand of the wrong type raises.
\<close>

definition build_alert :: "string \<Rightarrow> string \<Rightarrow> holding \<Rightarrow> previous option \<Rightarrow> error + alert option" where
  "build_alert ticker company current_data previous_data =
     (let current_shares = shares current_data;
          prev_shares = (case previous_data of Some p \<Rightarrow> p_shares p | None \<Rightarrow> JInt 0)
      in bind_err (int_sub current_shares prev_shares) (\<lambda>delta.
           if py_eq delta (JInt 0) then Inr None
           else
             bind_err (if py_ne prev_shares (JInt 0) then py_truediv delta prev_shares
                       else Inr (JInt 0)) (\<lambda>percent_change.
             bind_err (case previous_data of
                         Some p \<Rightarrow> mul_100 (p_weighting p)
                       | None \<Rightarrow> Inr (JInt 0)) (\<lambda>prev_weighting.
             case (if previous_data = None then None else format_2f prev_weighting) of
               Some e \<Rightarrow> Inl e
             | None \<Rightarrow>
                 Inr (Some
                   \<lparr> a_ticker = ticker, a_company = company,
                     a_date = date current_data,
                     a_current_shares = current_shares,
                     a_prev_shares = prev_shares,
                     a_delta = delta,
                     a_percent_change = percent_change,
                     a_increased = gt_0 delta,
                     a_current_weighting = float_mul (weighting current_data) (Finite 100),
                     a_prev_weighting =
                       (if previous_data = None then None else Some prev_weighting) \<rparr>)))))"

text \<open>Lines 144 to 146: the post, and the line printed for a status other than 200 or 204.\<close>

definition deliver :: "(string \<Rightarrow> alert \<Rightarrow> response) \<Rightarrow> string \<Rightarrow> alert \<Rightarrow> event list \<times> error option" where
  "deliver transport url payload =
     (case transport url payload of
        Raises \<Rightarrow> ([Post url payload], Some TransportError)
      | Response status_code body \<Rightarrow>
          (if status_code \<notin> set [200, 204]
           then ([Post url payload, Print_webhook_failed status_code body], None)
           else ([Post url payload], None)))"

text \<open>
  \<open>send_discord_alert\<close> returns the events it caused and the exception it raised, if any.
  \<open>webhook\<close> is the environment variable (\<open>None\<close> when unset), \<open>transport\<close> the HTTP call.
\<close>

definition webhook_set :: "string option \<Rightarrow> bool" where
  "webhook_set webhook \<longleftrightarrow> (case webhook of None \<Rightarrow> False | Some url \<Rightarrow> url \<noteq> [])"

definition send_discord_alert ::
  "string option \<Rightarrow> (string \<Rightarrow> alert \<Rightarrow> response) \<Rightarrow> string \<Rightarrow> string \<Rightarrow> holding \<Rightarrow> previous option
     \<Rightarrow> event list \<times> error option" where
  "send_discord_alert webhook transport ticker company current_data previous_data =
     (if \<not> webhook_set webhook then ([Print_no_webhook ticker], None)
      else
        (case build_alert ticker company current_data previous_data of
           Inl e \<Rightarrow> ([], Some e)
         | Inr None \<Rightarrow> ([], None)
         | Inr (Some payload) \<Rightarrow> deliver transport (the webhook) payload))"

subsection \<open>The change detector: \<open>main\<close>\<close>

text \<open>
  \<open>previous_data\<close> of the loop body: \<open>None\<close> for an empty history, else the last entry
  read through \<open>fields\<close>; an entry too short for an index raises.
\<close>

definition previous_of :: "string list \<Rightarrow> int \<Rightarrow> int \<Rightarrow> history \<Rightarrow> error + previous option" where
  "previous_of flds shares_idx weight_idx history =
     (if history = [] then Inr None
      else
        bind_err (if ''date'' \<in> set flds
                  then bind_err (list_index ''date'' flds) (py_get (last history))
                  else Inr (JStr [])) (\<lambda>d.
        bind_err (py_get (last history) shares_idx) (\<lambda>s.
        bind_err (py_get (last history) weight_idx) (\<lambda>w.
        Inr (Some \<lparr> p_date = d, p_shares = s, p_weighting = w \<rparr>)))))"

text \<open>\<open>current.get(field, None)\<close> for every field, in the order of \<open>fields\<close>.\<close>

definition get_field :: "holding \<Rightarrow> string \<Rightarrow> jval" where
  "get_field current field =
     (if field = ''date'' then JStr (date current)
      else if field = ''shares'' then JInt (shares current)
      else if field = ''weighting'' then JFloat (weighting current)
      else JNull)"

definition record_of :: "string list \<Rightarrow> holding \<Rightarrow> jval list" where
  "record_of flds current = map (get_field current) flds"

text \<open>Lines 184 to 188: compare and alert.\<close>

definition compare_and_alert ::
  "string option \<Rightarrow> (string \<Rightarrow> alert \<Rightarrow> response) \<Rightarrow> string \<Rightarrow> string \<Rightarrow> holding \<Rightarrow> previous option
     \<Rightarrow> event list \<times> error option" where
  "compare_and_alert webhook transport ticker company current previous_data =
     (case previous_data of
        None \<Rightarrow> ([Print_first_time ticker], None)
      | Some p \<Rightarrow>
          if py_ne (JInt (shares current)) (p_shares p)
          then (Print_detected ticker (p_shares p) (shares current)
                  # fst (send_discord_alert webhook transport ticker company current previous_data),
                snd (send_discord_alert webhook transport ticker company current previous_data))
          else ([], None))"

text \<open>The condition of line 191.\<close>

definition update_needed :: "holding \<Rightarrow> previous option \<Rightarrow> bool" where
  "update_needed current previous_data \<longleftrightarrow>
     (case previous_data of
        None \<Rightarrow> True
      | Some p \<Rightarrow>
          py_ne (JInt (shares current)) (p_shares p)
          \<or> py_ne (JFloat (weighting current)) (p_weighting p))"

text \<open>
  The body of the loop over \<open>TARGET_TICKERS.items()\<close>: the events of the iteration and
  either the exception that ends the run or \<open>data\<close> after the iteration.
\<close>

definition process_ticker ::
  "string option \<Rightarrow> (string \<Rightarrow> alert \<Rightarrow> response) \<Rightarrow> string list \<Rightarrow> int \<Rightarrow> int \<Rightarrow> holdings
     \<Rightarrow> string \<times> string \<Rightarrow> (string \<rightharpoonup> history) \<Rightarrow> event list \<times> (error + (string \<rightharpoonup> history))" where
  "process_ticker webhook transport flds shares_idx weight_idx current_holdings tc data =
     (case current_holdings (fst tc) of
        None \<Rightarrow> ([Print_not_found (fst tc)], Inr data)
      | Some current \<Rightarrow>
          let history = data_get data (fst tc)
          in case previous_of flds shares_idx weight_idx history of
               Inl e \<Rightarrow> ([], Inl e)
             | Inr previous_data \<Rightarrow>
                 (case compare_and_alert webhook transport (fst tc) (snd tc) current previous_data of
                    (evs, Some e) \<Rightarrow> (evs, Inl e)
                  | (evs, None) \<Rightarrow>
                      (evs,
                       Inr (if update_needed current previous_data
                            then data(fst tc \<mapsto> history @ [record_of flds current])
                            else data))))"

fun process_tickers ::
  "string option \<Rightarrow> (string \<Rightarrow> alert \<Rightarrow> response) \<Rightarrow> string list \<Rightarrow> int \<Rightarrow> int \<Rightarrow> holdings
     \<Rightarrow> (string \<times> string) list \<Rightarrow> (string \<rightharpoonup> history) \<Rightarrow> event list \<times> (error + (string \<rightharpoonup> history))" where
  "process_tickers webhook transport flds shares_idx weight_idx current_holdings [] data =
     ([], Inr data)"
| "process_tickers webhook transport flds shares_idx weight_idx current_holdings (tc # rest) data =
     (case process_ticker webhook transport flds shares_idx weight_idx current_holdings tc data of
        (evs, Inl e) \<Rightarrow> (evs, Inl e)
      | (evs, Inr data') \<Rightarrow>
          (evs @ fst (process_tickers webhook transport flds shares_idx weight_idx
                        current_holdings rest data'),
           snd (process_tickers webhook transport flds shares_idx weight_idx
                  current_holdings rest data')))"

text \<open>
  The world of one run: what \<open>fetch_csv\<close> returns or raises, the date of the run, the
  state file (\<open>None\<close> when it does not exist), the webhook variable and the transport.
\<close>

record env =
  env_fetch :: "error + string list"
  env_today :: string
  env_file :: "document option"
  env_webhook :: "string option"
  env_transport :: "string \<Rightarrow> alert \<Rightarrow> response"

text \<open>What a run leaves: its events, the exception that ended it, the state file after it.\<close>

record outcome =
  out_events :: "event list"
  out_raised :: "error option"
  out_file :: "document option"

definition aborted :: "env \<Rightarrow> event list \<Rightarrow> error \<Rightarrow> outcome" where
  "aborted w evs e = \<lparr> out_events = evs, out_raised = Some e, out_file = env_file w \<rparr>"

text \<open>Lines 155 to 201 of \<open>main\<close>, after the feed has been parsed.\<close>

definition detect :: "env \<Rightarrow> holdings \<Rightarrow> outcome" where
  "detect w current_holdings =
     (let state = load_state (env_file w);
          data = state_data state;
          flds = state_fields state
      in case list_index ''shares'' flds of
           Inl e \<Rightarrow> aborted w [Print_fetching, Print_parsing, Print_loading] e
         | Inr shares_idx \<Rightarrow>
             (case list_index ''weighting'' flds of
                Inl e \<Rightarrow> aborted w [Print_fetching, Print_parsing, Print_loading] e
              | Inr weight_idx \<Rightarrow>
                  (case process_tickers (env_webhook w) (env_transport w) flds shares_idx
                          weight_idx current_holdings TARGET_TICKERS data of
                     (evs, Inl e) \<Rightarrow>
                       aborted w ([Print_fetching, Print_parsing, Print_loading] @ evs) e
                   | (evs, Inr data') \<Rightarrow>
                       \<lparr> out_events =
                           [Print_fetching, Print_parsing, Print_loading] @ evs @ [Print_done],
                         out_raised = None,
                         out_file = Some (state\<lparr> doc_data := Some data' \<rparr>) \<rparr>)))"

definition main :: "env \<Rightarrow> outcome" where
  "main w =
     (case env_fetch w of
        Inl e \<Rightarrow> aborted w [Print_fetching] e
      | Inr lines \<Rightarrow>
          (case parse_csv (env_today w) lines of
             Inl e \<Rightarrow> aborted w [Print_fetching, Print_parsing] e
           | Inr current_holdings \<Rightarrow> detect w current_holdings))"

subsection \<open>Notions of the specification\<close>

text \<open>
  A line qualifies as the header, in the words of the specification: its uppercased
  fields contain a recognised identifier-column name and the quantity-column name.
\<close>

definition spec_qualifies :: "string \<Rightarrow> bool" where
  "spec_qualifies line \<longleftrightarrow>
     (''TICKER'' \<in> set (map upper (split_cols line)) \<or> ''STOCKTICKER'' \<in> set (map upper (split_cols line)))
     \<and> ''SHARES'' \<in> set (map upper (split_cols line))"



text \<open>
  The ticker of a data row, if the loop body takes the row as a tracked one: the line is
  not blank, it has a field at the ticker column, and that field, uppercased, is a key
  of \<open>TARGET_TICKERS\<close>.
\<close>

definition row_ticker :: "columns \<Rightarrow> string \<Rightarrow> string option" where
  "row_ticker ci line =
     (if strip line = [] \<or> int (length (split_cols line)) \<le> ticker_col ci then None
      else
        (case py_get (split_cols line) (ticker_col ci) of
           Inl e \<Rightarrow> None
         | Inr t \<Rightarrow> if upper t \<in> set (map fst TARGET_TICKERS) then Some (upper t) else None))"

text \<open>
  The weighting in the words of the specification: a trailing percent marker and the
  surrounding whitespace are stripped from the field before it is parsed.
\<close>

definition spec_strip_percent :: "string \<Rightarrow> string" where
  "spec_strip_percent s =
     strip (if strip s \<noteq> [] \<and> last (strip s) = CHR ''%'' then butlast (strip s) else strip s)"

definition spec_weighting :: "columns \<Rightarrow> string list \<Rightarrow> pyfloat" where
  "spec_weighting ci cols =
     (if weight_col ci \<noteq> - 1 \<and> weight_col ci < int (length cols) \<and> cols ! nat (weight_col ci) \<noteq> []
      then
        (case py_float (spec_strip_percent (cols ! nat (weight_col ci))) of
           Inl e \<Rightarrow> Finite 0
         | Inr x \<Rightarrow> float_div x (Finite 100))
      else Finite 0)"

text \<open>The weighting that a parse result holds for a ticker.\<close>

definition weighting_of :: "error + holdings \<Rightarrow> string \<Rightarrow> pyfloat option" where
  "weighting_of r t = (case r of Inl e \<Rightarrow> None | Inr h \<Rightarrow> map_option weighting (h t))"

text \<open>
  What the loop body does to the history it works on: \<open>process_ticker\<close> reads
  \<open>data\<close> only at its own ticker and writes only there, so an iteration is a step on
  that entry (\<open>None\<close> when the ticker has no key in \<open>data\<close>).
\<close>

definition ticker_step ::
  "string option \<Rightarrow> (string \<Rightarrow> alert \<Rightarrow> response) \<Rightarrow> string list \<Rightarrow> int \<Rightarrow> int \<Rightarrow> holdings
     \<Rightarrow> string \<times> string \<Rightarrow> history option \<Rightarrow> event list \<times> (error + history option)" where
  "ticker_step webhook transport flds shares_idx weight_idx current_holdings tc entry =
     (case current_holdings (fst tc) of
        None \<Rightarrow> ([Print_not_found (fst tc)], Inr entry)
      | Some current \<Rightarrow>
          (case previous_of flds shares_idx weight_idx (case entry of Some h \<Rightarrow> h | None \<Rightarrow> []) of
             Inl e \<Rightarrow> ([], Inl e)
           | Inr previous_data \<Rightarrow>
               (case snd (compare_and_alert webhook transport (fst tc) (snd tc) current previous_data) of
                  Some e \<Rightarrow>
                    (fst (compare_and_alert webhook transport (fst tc) (snd tc) current previous_data),
                     Inl e)
                | None \<Rightarrow>
                    (fst (compare_and_alert webhook transport (fst tc) (snd tc) current previous_data),
                     Inr (if update_needed current previous_data
                          then Some ((case entry of Some h \<Rightarrow> h | None \<Rightarrow> []) @ [record_of flds current])
                          else entry)))))"

text \<open>The history the state file holds for a ticker, empty when it has none.\<close>

definition history_of :: "document option \<Rightarrow> string \<Rightarrow> history" where
  "history_of f t = data_get (state_data (load_state f)) t"

text \<open>
  \<open>latest(identifier)\<close> of the specification's state store: the last entry of the
  ticker's history decoded through \<open>fields\<close>, as lines 159 to 179 of \<open>main\<close> compute it.
\<close>

definition latest :: "document option \<Rightarrow> string \<Rightarrow> error + previous option" where
  "latest f t =
     bind_err (list_index ''shares'' (state_fields (load_state f))) (\<lambda>si.
     bind_err (list_index ''weighting'' (state_fields (load_state f))) (\<lambda>wi.
     previous_of (state_fields (load_state f)) si wi (history_of f t)))"

text \<open>A notification for a ticker is among the events: a message was posted for it.\<close>

definition notified :: "event list \<Rightarrow> string \<Rightarrow> bool" where
  "notified evs t \<longleftrightarrow> (\<exists>u a. Post u a \<in> set evs \<and> a_ticker a = t)"


section \<open>Properties\<close>

subsection \<open>Locating the header and its columns\<close>

lemma has_ticker_iff: "has_ticker cu \<longleftrightarrow> ''TICKER'' \<in> set cu \<or> ''STOCKTICKER'' \<in> set cu"
  by (auto simp: has_ticker_def list_ex_iff)

lemma spec_qualifies_iff:
  "spec_qualifies l \<longleftrightarrow> has_ticker (map upper (split_cols l)) \<and> has_shares (map upper (split_cols l))"
  unfolding spec_qualifies_def has_ticker_iff has_shares_def ..

lemma find_header_Cons:
  "find_header n (l # ls) =
     (if spec_qualifies l then Some (n, map upper (split_cols l)) else find_header (Suc n) ls)"
  unfolding spec_qualifies_iff by (simp add: Let_def)

lemma first_index_from_none: "\<not> list_ex P xs \<Longrightarrow> first_index_from i P xs = - 1"
  by (induction xs arbitrary: i) auto

lemma first_index_from_some:
  "list_ex P xs \<Longrightarrow> i \<le> first_index_from i P xs \<and> first_index_from i P xs < i + int (length xs)
     \<and> P (xs ! nat (first_index_from i P xs - i))"
proof (induction xs arbitrary: i)
  case Nil
  then show ?case by simp
next
  case (Cons x xs)
  show ?case
  proof (cases "P x")
    case True
    then show ?thesis by simp
  next
    case False
    with Cons.prems have ex: "list_ex P xs" by simp
    define k where "k = first_index_from (i + 1) P xs"
    from Cons.IH [OF ex, of "i + 1"]
    have k: "i + 1 \<le> k" "k < i + 1 + int (length xs)" "P (xs ! nat (k - (i + 1)))"
      by (simp_all add: k_def)
    from k(1) have "nat (k - i) = Suc (nat (k - (i + 1)))" by linarith
    with k False show ?thesis
      by (simp add: k_def [symmetric])
  qed
qed

lemma find_header_Some_iff:
  "find_header n ls = Some (i, header) \<longleftrightarrow>
     n \<le> i \<and> i - n < length ls \<and> spec_qualifies (ls ! (i - n))
     \<and> (\<forall>j < i - n. \<not> spec_qualifies (ls ! j))
     \<and> header = map upper (split_cols (ls ! (i - n)))"
proof (induction ls arbitrary: n)
  case Nil
  then show ?case by simp
next
  case (Cons l ls)
  show ?case
  proof (cases "spec_qualifies l")
    case True
    then show ?thesis
      unfolding find_header_Cons by (auto simp: nth_Cons')
  next
    case False
    have all: "(\<forall>j < i - n. \<not> spec_qualifies ((l # ls) ! j)) \<longleftrightarrow> (\<forall>j < i - Suc n. \<not> spec_qualifies (ls ! j))"
      if "Suc n \<le> i"
    proof -
      from that have "i - n = Suc (i - Suc n)" by simp
      then show ?thesis using False by (simp add: All_less_Suc2 del: All_less_Suc)
    qed
    have IH: "find_header (Suc n) ls = Some (i, header) \<longleftrightarrow>
        Suc n \<le> i \<and> i - Suc n < length ls \<and> spec_qualifies (ls ! (i - Suc n))
        \<and> (\<forall>j < i - Suc n. \<not> spec_qualifies (ls ! j))
        \<and> header = map upper (split_cols (ls ! (i - Suc n)))"
      by (rule Cons.IH)
    show ?thesis
    proof (cases "Suc n \<le> i")
      case True
      then have d: "i - n = Suc (i - Suc n)" by simp
      have "n \<le> i" using True by simp
      with True IH show ?thesis
        unfolding find_header_Cons all [OF True] using False by (simp add: d)
    next
      case le: False
      then have "\<not> (n \<le> i \<and> spec_qualifies ((l # ls) ! (i - n)))"
        using False by (cases "i = n") auto
      with le IH show ?thesis
        unfolding find_header_Cons using False by auto
    qed
  qed
qed



lemma list_index_shares:
  "''SHARES'' \<in> set header \<Longrightarrow>
     \<exists>k. list_index ''SHARES'' header = Inr k \<and> 0 \<le> k \<and> k < int (length header)
         \<and> header ! nat k = ''SHARES''"
proof -
  assume "''SHARES'' \<in> set header"
  then have ex: "list_ex (\<lambda>h. h = ''SHARES'') header" by (simp add: list_ex_iff)
  from first_index_from_some [OF ex, of 0] show ?thesis
    by (auto simp: list_index_def first_index_def Let_def)
qed

lemma first_index_ticker:
  "''TICKER'' \<in> set header \<or> ''STOCKTICKER'' \<in> set header \<Longrightarrow>
     0 \<le> first_index (\<lambda>h. h \<in> set [''TICKER'', ''STOCKTICKER'']) header
     \<and> first_index (\<lambda>h. h \<in> set [''TICKER'', ''STOCKTICKER'']) header < int (length header)
     \<and> header ! nat (first_index (\<lambda>h. h \<in> set [''TICKER'', ''STOCKTICKER'']) header)
          \<in> set [''TICKER'', ''STOCKTICKER'']"
proof -
  assume "''TICKER'' \<in> set header \<or> ''STOCKTICKER'' \<in> set header"
  then have ex: "list_ex (\<lambda>h. h \<in> set [''TICKER'', ''STOCKTICKER'']) header"
    by (auto simp: list_ex_iff)
  from first_index_from_some [OF ex, of 0] show ?thesis
    by (simp add: first_index_def)
qed

lemma find_header_qualifies:
  "find_header n ls = Some (i, header) \<Longrightarrow>
     (''TICKER'' \<in> set header \<or> ''STOCKTICKER'' \<in> set header) \<and> ''SHARES'' \<in> set header"
  unfolding find_header_Some_iff spec_qualifies_def by blast

lemmas eval_strings = split_cols_def csv_row_def strip_def isspace_def upper_def upper_char_def

lemma header_columns:
  "find_header n ls = Some (i, header) \<Longrightarrow>
     (\<exists>ci. resolve_columns header = Inr ci
        \<and> 0 \<le> ticker_col ci \<and> ticker_col ci < int (length header)
        \<and> header ! nat (ticker_col ci) \<in> set [''TICKER'', ''STOCKTICKER'']
        \<and> 0 \<le> shares_col ci \<and> shares_col ci < int (length header)
        \<and> header ! nat (shares_col ci) = ''SHARES'')"
proof -
  assume "find_header n ls = Some (i, header)"
  then have q: "''TICKER'' \<in> set header \<or> ''STOCKTICKER'' \<in> set header" "''SHARES'' \<in> set header"
    using find_header_qualifies by blast+
  from list_index_shares [OF q(2)] obtain k where
    k: "list_index ''SHARES'' header = Inr k" "0 \<le> k" "k < int (length header)" "header ! nat k = ''SHARES''"
    by blast
  from first_index_ticker [OF q(1)] k show ?thesis
    by (simp add: resolve_columns_def)
qed

text \<open>
  C10. Once the header loop has found a header, resolving the columns cannot fail: the
  ticker column and the shares column both get an index inside the header, at a field
  with the expected name; \<open>header.index("SHARES")\<close> does not raise and the ticker index
  is not \<open>-1\<close>.
\<close>

theorem columns_found_after_header:
  "find_header n ls = Some (i, header) \<Longrightarrow>
     (\<exists>ci. resolve_columns header = Inr ci
        \<and> 0 \<le> ticker_col ci \<and> ticker_col ci < int (length header)
        \<and> header ! nat (ticker_col ci) \<in> set [''TICKER'', ''STOCKTICKER'']
        \<and> 0 \<le> shares_col ci \<and> shares_col ci < int (length header)
        \<and> header ! nat (shares_col ci) = ''SHARES'')"
  by (rule header_columns)

theorem columns_found_after_header_witness:
  "find_header 0 [''As of 1/2/2020'', ''Shares, Date, StockTicker''] = Some (1, [''SHARES'', ''DATE'', ''STOCKTICKER''])
   \<and> resolve_columns [''SHARES'', ''DATE'', ''STOCKTICKER'']
       = Inr \<lparr> date_col = 1, ticker_col = 2, shares_col = 0, weight_col = - 1 \<rparr>"
proof -
  have h: "find_header 0 [''As of 1/2/2020'', ''Shares, Date, StockTicker'']
             = Some (1, [''SHARES'', ''DATE'', ''STOCKTICKER''])"
    by (simp add: eval_strings has_ticker_def has_shares_def)
  from columns_found_after_header [OF h] h show ?thesis
    by (simp add: resolve_columns_def list_index_def first_index_def)
qed

subsection \<open>Errors of the parser\<close>













text \<open>
  C9. Some inputs make the parser fail with an index error that nothing handles. A row
  is skipped for its length only when it has no field at the ticker column; a tracked row
  that has the ticker field but no field at the shares column, or none at a date column
  that the header has, raises \<open>IndexError\<close>, and the run ends without touching the state
  file.
\<close>

theorem index_error_on_short_row:
  "parse_csv today [''Ticker,Shares'', ''MAPS''] = Inl IndexError
   \<and> parse_csv today [''Ticker,Shares,Date'', ''MAPS,100''] = Inl IndexError
   \<and> main \<lparr> env_fetch = Inr [''Ticker,Shares'', ''MAPS''], env_today = today, env_file = f,
             env_webhook = u, env_transport = t \<rparr>
       = \<lparr> out_events = [Print_fetching, Print_parsing], out_raised = Some IndexError,
           out_file = f \<rparr>"
proof -
  have h1: "find_header 0 (take 10 [''Ticker,Shares'', ''MAPS'']) = Some (0, [''TICKER'', ''SHARES''])"
    by (simp add: eval_strings has_ticker_def has_shares_def)
  have c1: "resolve_columns [''TICKER'', ''SHARES'']
      = Inr \<lparr> date_col = - 1, ticker_col = 0, shares_col = 1, weight_col = - 1 \<rparr>"
    by (simp add: resolve_columns_def list_index_def first_index_def)
  have r1: "parse_row \<lparr> date_col = - 1, ticker_col = 0, shares_col = 1, weight_col = - 1 \<rparr>
        today ''MAPS'' Map.empty = Inl IndexError"
    by (simp add: parse_row_def eval_strings py_get_def TARGET_TICKERS_def row_date_def row_shares_def)
  have p1: "parse_csv today [''Ticker,Shares'', ''MAPS''] = Inl IndexError"
    unfolding parse_csv_def h1 by (simp add: c1 r1)
  have h2: "find_header 0 (take 10 [''Ticker,Shares,Date'', ''MAPS,100''])
      = Some (0, [''TICKER'', ''SHARES'', ''DATE''])"
    by (simp add: eval_strings has_ticker_def has_shares_def)
  have c2: "resolve_columns [''TICKER'', ''SHARES'', ''DATE'']
      = Inr \<lparr> date_col = 2, ticker_col = 0, shares_col = 1, weight_col = - 1 \<rparr>"
    by (simp add: resolve_columns_def list_index_def first_index_def)
  have r2: "parse_row \<lparr> date_col = 2, ticker_col = 0, shares_col = 1, weight_col = - 1 \<rparr>
        today ''MAPS,100'' Map.empty = Inl IndexError"
    by (simp add: parse_row_def eval_strings py_get_def TARGET_TICKERS_def row_date_def)
  have p2: "parse_csv today [''Ticker,Shares,Date'', ''MAPS,100''] = Inl IndexError"
    unfolding parse_csv_def h2 by (simp add: c2 r2)
  show ?thesis
    using p1 p2 by (simp add: main_def aborted_def)
qed

theorem index_error_on_short_row_witness:
  "parse_csv ''2020-01-02'' [''Ticker,Shares'', ''MAPS''] = Inl IndexError
   \<and> parse_csv ''2020-01-02'' [''Ticker,Shares,Date'', ''MAPS,100''] = Inl IndexError
   \<and> out_file (main \<lparr> env_fetch = Inr [''Ticker,Shares'', ''MAPS''], env_today = ''2020-01-02'',
             env_file = None, env_webhook = None, env_transport = (\<lambda>u a. Raises) \<rparr>) = None"
  using index_error_on_short_row [of "''2020-01-02''" None None "\<lambda>u a. Raises"] by simp

subsection \<open>The float model: the binary logarithm and evaluation of the rounding\<close>

text \<open>
  \<open>ilog2 a\<close> is the exponent \<open>e\<close> with \<open>2 ^ e \<le> a < 2 ^ (e + 1)\<close>, so \<open>round_b64\<close> keeps 53
  significant bits of a normal number. \<open>round_b64_eval\<close> computes a rounding from a given
  exponent.
\<close>

lemma pow2_powi: "pow2 e = 2 powi e"
  by (simp add: pow2_def power_int_def power_one_over inverse_eq_divide)

lemma pow2_pos: "0 < pow2 e"
  by (simp add: pow2_def)

lemma pow2_mono: "e \<le> e' \<Longrightarrow> pow2 e \<le> pow2 e'"
  unfolding pow2_powi by (rule power_int_increasing) simp_all

lemma pow2_strict_mono: "e < e' \<Longrightarrow> pow2 e < pow2 e'"
  unfolding pow2_powi by (rule power_int_strict_increasing) simp_all

lemma pow2_add: "pow2 (a + b) = pow2 a * pow2 b"
  unfolding pow2_powi by (rule power_int_add) simp

lemma pow2_of_nat: "pow2 (int k) = 2 ^ k"
  by (simp add: pow2_def)

lemma bitlen_bounds:
  "0 < n \<Longrightarrow> 0 < bitlen n \<and> 2 ^ nat (bitlen n - 1) \<le> n \<and> n < 2 ^ nat (bitlen n)"
proof (induction n rule: bitlen.induct)
  case (1 n)
  show ?case
  proof (cases "n div 2 = 0")
    case True
    with "1.prems" have "n = 1" by presburger
    then show ?thesis by (simp add: bitlen.simps [of 1] bitlen.simps [of 0])
  next
    case False
    with "1.prems" have pos: "0 < n div 2" by presburger
    from "1.prems" have nle: "\<not> n \<le> 0" by simp
    from "1.IH" [OF nle pos]
    have b: "0 < bitlen (n div 2)" "2 ^ nat (bitlen (n div 2) - 1) \<le> n div 2"
      "n div 2 < 2 ^ nat (bitlen (n div 2))" by simp_all
    have eq: "bitlen n = 1 + bitlen (n div 2)"
      using nle by (simp add: bitlen.simps [of n])
    from b(1) have n1: "nat (bitlen (n div 2)) = Suc (nat (bitlen (n div 2) - 1))" by simp
    have n2: "nat (1 + bitlen (n div 2)) = Suc (nat (bitlen (n div 2)))"
      using b(1) by simp
    have "2 ^ nat (bitlen (n div 2)) \<le> n"
    proof -
      have "2 * 2 ^ nat (bitlen (n div 2) - 1) \<le> 2 * (n div 2)" using b(2) by simp
      also have "\<dots> \<le> n" by presburger
      finally show ?thesis by (subst n1) simp
    qed
    moreover have "n < 2 ^ nat (1 + bitlen (n div 2))"
    proof -
      have "n div 2 + 1 \<le> 2 ^ nat (bitlen (n div 2))" using b(3) by simp
      then have "2 * (n div 2) + 2 \<le> 2 * 2 ^ nat (bitlen (n div 2))" by simp
      moreover have "n < 2 * (n div 2) + 2" by presburger
      ultimately show ?thesis by (simp add: n2)
    qed
    ultimately show ?thesis using b(1) by (simp add: eq)
  qed
qed

lemma bitlen_pow2:
  assumes "0 < n"
  shows "pow2 (bitlen n - 1) \<le> of_int n" "of_int n < pow2 (bitlen n)"
proof -
  from bitlen_bounds [OF assms]
  have b: "0 < bitlen n" "2 ^ nat (bitlen n - 1) \<le> n" "n < 2 ^ nat (bitlen n)" by simp_all
  have "pow2 (bitlen n - 1) = of_int (2 ^ nat (bitlen n - 1))"
    using b(1) by (simp add: pow2_def)
  also have "\<dots> \<le> of_int n" using b(2) by (simp only: of_int_le_iff)
  finally show "pow2 (bitlen n - 1) \<le> of_int n" .
  have "(of_int n :: rat) < of_int (2 ^ nat (bitlen n))" using b(3) by (simp only: of_int_less_iff)
  also have "\<dots> = pow2 (bitlen n)" using b(1) by (simp add: pow2_def)
  finally show "of_int n < pow2 (bitlen n)" .
qed

lemma ilog2_bounds:
  assumes "0 < a"
  shows "pow2 (ilog2 a) \<le> a \<and> a < pow2 (ilog2 a + 1)"
proof -
  obtain n d where q: "quotient_of a = (n, d)" by (cases "quotient_of a")
  then have d: "0 < d" and a: "a = of_int n / of_int d"
    by (simp_all add: quotient_of_denom_pos quotient_of_div)
  from assms a d have n: "0 < n" by (simp add: zero_less_divide_iff)
  define e where "e = bitlen n - bitlen d"
  have il: "ilog2 a = (if pow2 e \<le> a then e else e - 1)"
    by (simp add: ilog2_def q e_def Let_def)
  note bn = bitlen_pow2 [OF n] and bd = bitlen_pow2 [OF d]
  have dpos: "(0::rat) < of_int d" using d by simp
  have up: "a < pow2 (e + 1)"
  proof -
    have "of_int n < pow2 (bitlen n)" by (rule bn(2))
    also have "\<dots> = pow2 (e + 1) * pow2 (bitlen d - 1)"
      by (simp add: e_def flip: pow2_add)
    also have "\<dots> \<le> pow2 (e + 1) * of_int d"
      using bd(1) pow2_pos [of "e + 1"] by (simp add: mult_left_mono)
    finally show ?thesis using dpos by (simp add: a pos_divide_less_eq)
  qed
  have low: "pow2 (e - 1) \<le> a"
  proof -
    have "pow2 (e - 1) * of_int d \<le> pow2 (e - 1) * pow2 (bitlen d)"
      using bd(2) pow2_pos [of "e - 1"] by (simp add: mult_left_mono less_imp_le)
    also have "\<dots> = pow2 (bitlen n - 1)"
      by (simp add: e_def flip: pow2_add)
    also have "\<dots> \<le> of_int n" by (rule bn(1))
    finally show ?thesis using dpos by (simp add: a pos_le_divide_eq)
  qed
  show ?thesis
    using up low by (auto simp: il not_le)
qed

lemma ilog2_eqI:
  assumes "pow2 e \<le> a" "a < pow2 (e + 1)"
  shows "ilog2 a = e"
proof -
  have pos: "0 < a" using assms(1) pow2_pos [of e] by simp
  from ilog2_bounds [OF pos] have b: "pow2 (ilog2 a) \<le> a" "a < pow2 (ilog2 a + 1)" by simp_all
  have "\<not> ilog2 a < e"
  proof
    assume "ilog2 a < e"
    then have "pow2 (ilog2 a + 1) \<le> pow2 e" by (intro pow2_mono) simp
    with b(2) assms(1) show False by simp
  qed
  moreover have "\<not> e < ilog2 a"
  proof
    assume "e < ilog2 a"
    then have "pow2 (e + 1) \<le> pow2 (ilog2 a)" by (intro pow2_mono) simp
    with b(1) assms(2) show False by simp
  qed
  ultimately show ?thesis by simp
qed

lemma floor_rat_numeral [simp]: "\<lfloor>numeral a / numeral b :: rat\<rfloor> = numeral a div numeral b"
  using floor_divide_of_int_eq [of "numeral a" "numeral b", where ?'a = rat] by simp

lemma round_b64_eval:
  assumes "pow2 e \<le> \<bar>x\<bar>" "\<bar>x\<bar> < pow2 (e + 1)"
  shows "round_b64 x =
     (let q = max (e - 52) (- 1074);
          r = of_int (round_half_even (\<bar>x\<bar> / pow2 q)) * pow2 q
      in if pow2 1024 \<le> r then (if 0 < x then PosInf else NegInf)
         else Finite (if 0 < x then r else - r))"
proof -
  have nz: "x \<noteq> 0" using assms(1) pow2_pos [of e] by auto
  have il: "ilog2 \<bar>x\<bar> = e" by (rule ilog2_eqI [OF assms])
  show ?thesis
    unfolding round_b64_def Let_def il using nz by simp
qed

lemmas eval_float = py_float_def c_strip_def c_isspace_def remove_char_def float_inner_def
  parse_sign_def parse_exponent_def parse_inf_or_nan_def is_digit_def digits_val_def digit_val_def
  pow10_def Let_def

subsection \<open>The rows of tracked tickers\<close>

lemma parse_row_tracked:
  "row_ticker ci line = Some t \<Longrightarrow>
     parse_row ci today line h =
       (case row_date ci today (split_cols line) of
          Inl e \<Rightarrow> Inl e
        | Inr d \<Rightarrow>
            (case row_shares ci (split_cols line) of
               Inl e \<Rightarrow> Inl e
             | Inr n \<Rightarrow>
                 Inr (h(t \<mapsto> \<lparr> date = d, shares = n,
                                weighting = row_weighting ci (split_cols line) \<rparr>))))"
  by (auto simp: row_ticker_def parse_row_def Let_def split: if_splits sum.splits)

lemma parse_row_untracked:
  "0 \<le> ticker_col ci \<Longrightarrow> row_ticker ci line = None \<Longrightarrow> parse_row ci today line h = Inr h"
  by (auto simp: row_ticker_def parse_row_def Let_def py_get_def split: if_splits sum.splits)


lemma parse_csv_rows:
  "find_header 0 (take 10 lines) = Some (k, header) \<Longrightarrow> resolve_columns header = Inr ci \<Longrightarrow>
     parse_csv today lines = parse_rows ci today (drop (Suc k) lines) Map.empty"
  by (simp add: parse_csv_def)



lemma round_b64_100: "round_b64 100 = Finite 100"
  by (subst round_b64_eval [where e = 6]) (simp_all add: pow2_def round_half_even_def Let_def)

lemma round_b64_15: "round_b64 15 = Finite 15"
  by (subst round_b64_eval [where e = 3]) (simp_all add: pow2_def round_half_even_def Let_def)

lemma round_b64_3_2: "round_b64 (3 / 2) = Finite (3 / 2)"
  by (subst round_b64_eval [where e = 0]) (simp_all add: pow2_def round_half_even_def Let_def)

lemma round_b64_3_20: "round_b64 (3 / 20) = Finite (5404319552844595 / 36028797018963968)"
  by (subst round_b64_eval [where e = "- 3"]) (simp_all add: pow2_def round_half_even_def Let_def)

lemma round_b64_3_200: "round_b64 (3 / 200) = Finite (1080863910568919 / 72057594037927936)"
  by (subst round_b64_eval [where e = "- 7"]) (simp_all add: pow2_def round_half_even_def Let_def)

lemma row_shares_100:
  "row_shares \<lparr> date_col = - 1, ticker_col = 0, shares_col = 1, weight_col = 2 \<rparr> (''MAPS'' # ''100'' # rest)
     = Inr 100"
  by (simp add: row_shares_def py_get_def eval_float round_b64_100 int_of_float_def)



text \<open>
  C6 as stated fails: the field \<open>1%5\<close> has no trailing percent marker and is not a
  float, so the stated rule gives \<open>0.0\<close>; the code removes the percent sign inside it,
  parses \<open>15\<close> and stores \<open>0.15\<close>.
\<close>

theorem weighting_trailing_percent_counterexample:
  "weighting_of (parse_csv ''2020-01-02'' [''Ticker,Shares,Weighting'', ''MAPS,100,1%5'']) ''MAPS''
     = Some (Finite (5404319552844595 / 36028797018963968))
   \<and> spec_weighting \<lparr> date_col = - 1, ticker_col = 0, shares_col = 1, weight_col = 2 \<rparr>
       (split_cols ''MAPS,100,1%5'') = Finite 0"
proof -
  let ?ci = "\<lparr> date_col = - 1, ticker_col = 0, shares_col = 1, weight_col = 2 \<rparr>"
  have hdr: "find_header 0 (take 10 [''Ticker,Shares,Weighting'', ''MAPS,100,1%5''])
      = Some (0, [''TICKER'', ''SHARES'', ''WEIGHTING''])"
    by (simp add: eval_strings has_ticker_def has_shares_def)
  have cols: "resolve_columns [''TICKER'', ''SHARES'', ''WEIGHTING''] = Inr ?ci"
    by (simp add: resolve_columns_def list_index_def first_index_def)
  have sc: "split_cols ''MAPS,100,1%5'' = [''MAPS'', ''100'', ''1%5'']"
    by (simp add: eval_strings)
  have t: "row_ticker ?ci ''MAPS,100,1%5'' = Some ''MAPS''"
    by (simp add: row_ticker_def sc py_get_def TARGET_TICKERS_def) (simp add: eval_strings)
  have d: "row_date ?ci ''2020-01-02'' [''MAPS'', ''100'', ''1%5''] = Inr ''2020-01-02''"
    by (simp add: row_date_def reformat_date_def month_text_def Let_def)
  have w: "row_weighting ?ci [''MAPS'', ''100'', ''1%5'']
      = Finite (5404319552844595 / 36028797018963968)"
    by (simp add: row_weighting_def eval_float strip_def isspace_def round_b64_15 round_b64_3_20)
  have row: "parse_row ?ci ''2020-01-02'' ''MAPS,100,1%5'' Map.empty
      = Inr [''MAPS'' \<mapsto> \<lparr> date = ''2020-01-02'', shares = 100,
                weighting = Finite (5404319552844595 / 36028797018963968) \<rparr>]"
    by (simp add: parse_row_tracked [OF t] sc d row_shares_100 w)
  have "parse_csv ''2020-01-02'' [''Ticker,Shares,Weighting'', ''MAPS,100,1%5'']
      = Inr [''MAPS'' \<mapsto> \<lparr> date = ''2020-01-02'', shares = 100,
                weighting = Finite (5404319552844595 / 36028797018963968) \<rparr>]"
    by (simp add: parse_csv_rows [OF hdr cols] row)
  then have 1: "weighting_of (parse_csv ''2020-01-02'' [''Ticker,Shares,Weighting'', ''MAPS,100,1%5''])
      ''MAPS'' = Some (Finite (5404319552844595 / 36028797018963968))"
    by (simp add: weighting_of_def)
  have 2: "spec_weighting ?ci (split_cols ''MAPS,100,1%5'') = Finite 0"
    by (simp add: sc spec_weighting_def spec_strip_percent_def strip_def isspace_def eval_float)
  from 1 2 show ?thesis by simp
qed

text \<open>
  C6, as the code has it. For a tracked row whose date and shares were read, the row
  enters the holdings (nothing is raised for the weighting), and its weighting is
  \<open>0.0\<close> when the weight column is absent, the row has no field there or the field is
  empty; otherwise the field with every percent sign removed (not only a trailing one)
  and the surrounding whitespace stripped is parsed as a float and divided by 100, and
  the weighting is \<open>0.0\<close> when the parse fails. The field \<open>1.50%\<close> gives a value within
  \<open>1e-9\<close> of \<open>0.015\<close>.
\<close>

theorem weighting_parsed_leniently:
  "(row_ticker ci line = Some t \<and> row_date ci today (split_cols line) = Inr d
      \<and> row_shares ci (split_cols line) = Inr n \<longrightarrow>
      parse_row ci today line h =
        Inr (h(t \<mapsto> \<lparr> date = d, shares = n,
               weighting =
                 (if weight_col ci = - 1 \<or> int (length (split_cols line)) \<le> weight_col ci
                     \<or> split_cols line ! nat (weight_col ci) = []
                  then Finite 0
                  else
                    (case py_float (strip (remove_char (CHR ''%'')
                                      (split_cols line ! nat (weight_col ci)))) of
                       Inl e \<Rightarrow> Finite 0
                     | Inr x \<Rightarrow> float_div x (Finite 100))) \<rparr>)))
   \<and> (\<exists>r. row_weighting \<lparr> date_col = - 1, ticker_col = 0, shares_col = 1, weight_col = 2 \<rparr>
              [''MAPS'', ''100'', ''1.50%''] = Finite r
          \<and> \<bar>r - 15 / 1000\<bar> \<le> 1 / 10 ^ 9)"
proof (intro conjI impI)
  assume a: "row_ticker ci line = Some t \<and> row_date ci today (split_cols line) = Inr d
      \<and> row_shares ci (split_cols line) = Inr n"
  then show "parse_row ci today line h =
        Inr (h(t \<mapsto> \<lparr> date = d, shares = n,
               weighting =
                 (if weight_col ci = - 1 \<or> int (length (split_cols line)) \<le> weight_col ci
                     \<or> split_cols line ! nat (weight_col ci) = []
                  then Finite 0
                  else
                    (case py_float (strip (remove_char (CHR ''%'')
                                      (split_cols line ! nat (weight_col ci)))) of
                       Inl e \<Rightarrow> Finite 0
                     | Inr x \<Rightarrow> float_div x (Finite 100))) \<rparr>))"
    by (auto simp: parse_row_tracked row_weighting_def)
next
  have "row_weighting \<lparr> date_col = - 1, ticker_col = 0, shares_col = 1, weight_col = 2 \<rparr>
          [''MAPS'', ''100'', ''1.50%''] = Finite (1080863910568919 / 72057594037927936)"
    by (simp add: row_weighting_def eval_float strip_def isspace_def round_b64_3_2 round_b64_3_200)
  moreover have "\<bar>1080863910568919 / 72057594037927936 - 15 / 1000 :: rat\<bar> \<le> 1 / 10 ^ 9"
    by simp
  ultimately show "\<exists>r. row_weighting \<lparr> date_col = - 1, ticker_col = 0, shares_col = 1, weight_col = 2 \<rparr>
              [''MAPS'', ''100'', ''1.50%''] = Finite r
          \<and> \<bar>r - 15 / 1000\<bar> \<le> 1 / 10 ^ 9"
    by blast
qed

theorem weighting_parsed_leniently_witness:
  "parse_row \<lparr> date_col = - 1, ticker_col = 0, shares_col = 1, weight_col = 2 \<rparr> ''2020-01-02''
       ''MAPS,100,1.50%'' Map.empty
     = Inr [''MAPS'' \<mapsto> \<lparr> date = ''2020-01-02'', shares = 100,
              weighting = Finite (1080863910568919 / 72057594037927936) \<rparr>]
   \<and> parse_row \<lparr> date_col = - 1, ticker_col = 0, shares_col = 1, weight_col = 2 \<rparr> ''2020-01-02''
       ''MAPS,100,n/a'' Map.empty
     = Inr [''MAPS'' \<mapsto> \<lparr> date = ''2020-01-02'', shares = 100, weighting = Finite 0 \<rparr>]
   \<and> parse_row \<lparr> date_col = - 1, ticker_col = 0, shares_col = 1, weight_col = 2 \<rparr> ''2020-01-02''
       ''MAPS,100'' Map.empty
     = Inr [''MAPS'' \<mapsto> \<lparr> date = ''2020-01-02'', shares = 100, weighting = Finite 0 \<rparr>]"
proof -
  let ?ci = "\<lparr> date_col = - 1, ticker_col = 0, shares_col = 1, weight_col = 2 \<rparr>"
  have sc: "split_cols ''MAPS,100,1.50%'' = [''MAPS'', ''100'', ''1.50%'']"
    "split_cols ''MAPS,100,n/a'' = [''MAPS'', ''100'', ''n/a'']"
    "split_cols ''MAPS,100'' = [''MAPS'', ''100'']"
    by (simp_all add: eval_strings)
  have t: "row_ticker ?ci ''MAPS,100,1.50%'' = Some ''MAPS''"
    "row_ticker ?ci ''MAPS,100,n/a'' = Some ''MAPS''"
    "row_ticker ?ci ''MAPS,100'' = Some ''MAPS''"
    by (simp_all add: row_ticker_def sc py_get_def TARGET_TICKERS_def) (simp_all add: eval_strings)
  have d: "row_date ?ci ''2020-01-02'' cols = Inr ''2020-01-02''" for cols
    by (simp add: row_date_def reformat_date_def month_text_def Let_def)
  have v1: "py_float (strip (remove_char (CHR ''%'') ''1.50%'')) = Inr (Finite (3 / 2))"
    by (simp add: eval_float strip_def isspace_def round_b64_3_2)
  have v2: "py_float (strip (remove_char (CHR ''%'') ''n/a'')) = Inl (ValueError_float ''n/a'')"
    by (simp add: eval_float strip_def isspace_def upper_def upper_char_def)
  from weighting_parsed_leniently [of ?ci "''MAPS,100,1.50%''" "''MAPS''" "''2020-01-02''" "''2020-01-02''" 100 Map.empty]
  have 1: "parse_row ?ci ''2020-01-02'' ''MAPS,100,1.50%'' Map.empty
     = Inr [''MAPS'' \<mapsto> \<lparr> date = ''2020-01-02'', shares = 100,
              weighting = Finite (1080863910568919 / 72057594037927936) \<rparr>]"
    by (simp add: t d sc row_shares_100 v1 round_b64_3_200)
  from weighting_parsed_leniently [of ?ci "''MAPS,100,n/a''" "''MAPS''" "''2020-01-02''" "''2020-01-02''" 100 Map.empty]
  have 2: "parse_row ?ci ''2020-01-02'' ''MAPS,100,n/a'' Map.empty
     = Inr [''MAPS'' \<mapsto> \<lparr> date = ''2020-01-02'', shares = 100, weighting = Finite 0 \<rparr>]"
    by (simp add: t d sc row_shares_100 v2)
  from weighting_parsed_leniently [of ?ci "''MAPS,100''" "''MAPS''" "''2020-01-02''" "''2020-01-02''" 100 Map.empty]
  have 3: "parse_row ?ci ''2020-01-02'' ''MAPS,100'' Map.empty
     = Inr [''MAPS'' \<mapsto> \<lparr> date = ''2020-01-02'', shares = 100, weighting = Finite 0 \<rparr>]"
    by (simp add: t d sc row_shares_100)
  from 1 2 3 show ?thesis by blast
qed

subsection \<open>Runs: the change detector and the state file\<close>

lemma process_ticker_step:
  "process_ticker webhook transport flds si wi cur_h tc data =
     (fst (ticker_step webhook transport flds si wi cur_h tc (data (fst tc))),
      case snd (ticker_step webhook transport flds si wi cur_h tc (data (fst tc))) of
        Inl e \<Rightarrow> Inl e
      | Inr entry \<Rightarrow> Inr (data(fst tc := entry)))"
  by (auto simp: process_ticker_def ticker_step_def data_get_def Let_def
      split: option.splits sum.splits prod.splits)

lemma process_tickers_distinct:
  assumes "distinct (map fst tcs)"
    and "process_tickers webhook transport flds si wi cur_h tcs data = (evs, Inr data')"
  shows "(\<forall>tc \<in> set tcs. snd (ticker_step webhook transport flds si wi cur_h tc (data (fst tc)))
             = Inr (data' (fst tc)))
       \<and> (\<forall>k. k \<notin> fst ` set tcs \<longrightarrow> data' k = data k)
       \<and> evs = concat (map (\<lambda>tc. fst (ticker_step webhook transport flds si wi cur_h tc (data (fst tc)))) tcs)"
  using assms
proof (induction tcs arbitrary: data evs)
  case Nil
  then show ?case by simp
next
  case (Cons tc tcs)
  let ?s = "ticker_step webhook transport flds si wi cur_h"
  obtain e1 r1 where s1: "?s tc (data (fst tc)) = (e1, r1)" by (cases "?s tc (data (fst tc))")
  from Cons.prems(2) obtain entry where r1: "r1 = Inr entry"
    by (cases r1) (auto simp: process_ticker_step s1 split: prod.splits)
  let ?d1 = "data(fst tc := entry)"
  obtain e2 r2 where p2: "process_tickers webhook transport flds si wi cur_h tcs ?d1 = (e2, r2)"
    by (cases "process_tickers webhook transport flds si wi cur_h tcs ?d1")
  from Cons.prems(2) have r2: "r2 = Inr data'" and evs: "evs = e1 @ e2"
    by (auto simp: process_ticker_step s1 r1 p2 split: prod.splits sum.splits)
  from Cons.prems(1) have dist: "distinct (map fst tcs)" and notin: "fst tc \<notin> fst ` set tcs"
    by auto
  from Cons.IH [OF dist p2 [unfolded r2]]
  have ih1: "\<forall>tc' \<in> set tcs. snd (?s tc' (?d1 (fst tc'))) = Inr (data' (fst tc'))"
    and ih2: "\<forall>k. k \<notin> fst ` set tcs \<longrightarrow> data' k = ?d1 k"
    and ih3: "e2 = concat (map (\<lambda>tc'. fst (?s tc' (?d1 (fst tc')))) tcs)"
    by blast+
  have same: "?d1 (fst tc') = data (fst tc')" if "tc' \<in> set tcs" for tc'
  proof -
    from that have "fst tc' \<in> fst ` set tcs" by (rule imageI)
    with notin have "fst tc' \<noteq> fst tc" by metis
    then show ?thesis by simp
  qed
  have "data' (fst tc) = entry" using ih2 notin by simp
  then have a: "snd (?s tc (data (fst tc))) = Inr (data' (fst tc))"
    by (simp add: s1 r1)
  have b: "\<forall>tc' \<in> set tcs. snd (?s tc' (data (fst tc'))) = Inr (data' (fst tc'))"
    using ih1 same by simp
  have c: "\<forall>k. k \<notin> fst ` set (tc # tcs) \<longrightarrow> data' k = data k"
    using ih2 by auto
  have "e2 = concat (map (\<lambda>tc'. fst (?s tc' (data (fst tc')))) tcs)"
    unfolding ih3 using same by (intro arg_cong [where f = concat] map_cong refl) simp
  then have d: "evs = concat (map (\<lambda>tc'. fst (?s tc' (data (fst tc')))) (tc # tcs))"
    by (simp add: evs s1)
  from a b c d show ?case by simp
qed

lemma main_aborted: "out_raised (main w) = Some e \<Longrightarrow> out_file (main w) = env_file w"
  by (auto simp: main_def detect_def aborted_def Let_def split: sum.splits prod.splits)

lemma main_completed:
  assumes "out_raised (main w) = None"
  shows "\<exists>lines cur_h si wi evs data'.
           env_fetch w = Inr lines
         \<and> parse_csv (env_today w) lines = Inr cur_h
         \<and> list_index ''shares'' (state_fields (load_state (env_file w))) = Inr si
         \<and> list_index ''weighting'' (state_fields (load_state (env_file w))) = Inr wi
         \<and> process_tickers (env_webhook w) (env_transport w) (state_fields (load_state (env_file w)))
              si wi cur_h TARGET_TICKERS (state_data (load_state (env_file w))) = (evs, Inr data')
         \<and> out_file (main w) = Some ((load_state (env_file w))\<lparr> doc_data := Some data' \<rparr>)
         \<and> out_events (main w) = [Print_fetching, Print_parsing, Print_loading] @ evs @ [Print_done]"
  using assms
  by (auto simp: main_def detect_def aborted_def Let_def split: sum.splits prod.splits)

lemma distinct_TARGET_TICKERS: "distinct (map fst TARGET_TICKERS)"
  by (simp add: TARGET_TICKERS_def)

lemma ticker_step_prefix:
  assumes "snd (ticker_step webhook transport flds si wi cur_h tc entry) = Inr entry'"
  shows "entry' = entry
       \<or> (\<exists>cur. cur_h (fst tc) = Some cur
             \<and> entry' = Some ((case entry of Some h \<Rightarrow> h | None \<Rightarrow> []) @ [record_of flds cur]))"
  using assms
  by (auto simp: ticker_step_def split: option.splits sum.splits if_splits)

lemma completed_history:
  assumes "out_raised (main w) = None"
  shows "history_of (out_file (main w)) k = history_of (env_file w) k
       \<or> (k \<in> fst ` set TARGET_TICKERS
           \<and> (\<exists>r. history_of (out_file (main w)) k = history_of (env_file w) k @ [r]))"
proof -
  let ?st = "load_state (env_file w)"
  from main_completed [OF assms] obtain cur_h si wi evs data' where
    pt: "process_tickers (env_webhook w) (env_transport w) (state_fields ?st) si wi cur_h
           TARGET_TICKERS (state_data ?st) = (evs, Inr data')"
    and ofile: "out_file (main w) = Some (?st\<lparr> doc_data := Some data' \<rparr>)"
    by blast
  have h': "history_of (out_file (main w)) k = data_get data' k"
    by (simp add: ofile history_of_def load_state_def state_data_def)
  have h: "history_of (env_file w) k = data_get (state_data ?st) k"
    by (simp add: history_of_def)
  note d = process_tickers_distinct [OF distinct_TARGET_TICKERS pt]
  show ?thesis
  proof (cases "k \<in> fst ` set TARGET_TICKERS")
    case False
    with d have "data' k = state_data ?st k" by blast
    then show ?thesis by (simp add: h h' data_get_def)
  next
    case True
    then obtain tc where tc: "tc \<in> set TARGET_TICKERS" "k = fst tc" by auto
    with d have "snd (ticker_step (env_webhook w) (env_transport w) (state_fields ?st) si wi cur_h tc
        (state_data ?st k)) = Inr (data' k)" by blast
    from ticker_step_prefix [OF this] True show ?thesis
      by (auto simp: h h' data_get_def)
  qed
qed

text \<open>
  C7. For every run and every identifier, the history before the run is a prefix of
  the history after it: entries are kept as they were and in their order, at most one
  entry is appended, and the history of an identifier that is not tracked is unchanged.
\<close>

theorem history_append_only:
  "prefix (history_of (env_file w) k) (history_of (out_file (main w)) k)
   \<and> length (history_of (out_file (main w)) k) \<le> Suc (length (history_of (env_file w) k))
   \<and> (k \<notin> fst ` set TARGET_TICKERS \<longrightarrow>
        history_of (out_file (main w)) k = history_of (env_file w) k)"
proof (cases "out_raised (main w)")
  case None
  from completed_history [OF None, of k] show ?thesis by auto
next
  case (Some e)
  then have "out_file (main w) = env_file w" by (rule main_aborted)
  then show ?thesis by simp
qed

lemma build_alert_ticker:
  "build_alert t c cur prev = Inr (Some a) \<Longrightarrow> a_ticker a = t"
  by (auto simp: build_alert_def bind_err_def Let_def split: sum.splits option.splits if_splits)

lemma build_alert_int:
  assumes "p_shares p = JInt n" and "build_alert t c cur (Some p) = Inr (Some a)"
  shows "shares cur \<noteq> n \<and> a_delta a = JInt (shares cur - n)
       \<and> a_percent_change a =
           (if n = 0 then JInt 0 else JFloat (round_b64 (of_int (shares cur - n) / of_int n)))"
  using assms
  by (auto simp: build_alert_def bind_err_def Let_def py_ne_def
      split: sum.splits option.splits if_splits pyfloat.splits)

lemma build_alert_int_None:
  assumes "p_shares p = JInt n" and "build_alert t c cur (Some p) = Inr None"
  shows "shares cur = n"
  using assms
  by (auto simp: build_alert_def bind_err_def Let_def py_ne_def
      split: sum.splits option.splits if_splits pyfloat.splits)

lemma deliver_events:
  "Post u a \<in> set (fst (deliver transport url payload)) \<longleftrightarrow> u = url \<and> a = payload"
  by (auto simp: deliver_def split: response.splits)

lemma send_discord_alert_post:
  "Post u a \<in> set (fst (send_discord_alert wh tr t c cur prev)) \<longleftrightarrow>
     webhook_set wh \<and> u = the wh \<and> build_alert t c cur prev = Inr (Some a)"
  by (auto simp: send_discord_alert_def deliver_events split: sum.splits option.splits)

lemma compare_and_alert_post:
  "Post u a \<in> set (fst (compare_and_alert wh tr t c cur prev)) \<longleftrightarrow>
     (\<exists>p. prev = Some p \<and> py_ne (JInt (shares cur)) (p_shares p))
     \<and> webhook_set wh \<and> u = the wh \<and> build_alert t c cur prev = Inr (Some a)"
  by (auto simp: compare_and_alert_def send_discord_alert_post split: option.splits)

lemma compare_and_alert_raised:
  assumes "snd (compare_and_alert wh tr t c cur (Some p)) = None"
    and "py_ne (JInt (shares cur)) (p_shares p)" and "webhook_set wh"
  shows "\<exists>a. build_alert t c cur (Some p) = Inr a"
  using assms
  by (auto simp: compare_and_alert_def send_discord_alert_def split: sum.splits)

lemma ticker_step_post:
  "Post u a \<in> set (fst (ticker_step wh tr flds si wi cur_h tc entry)) \<Longrightarrow> a_ticker a = fst tc"
  by (auto simp: ticker_step_def compare_and_alert_post build_alert_ticker
      split: option.splits sum.splits)

lemma ticker_step_completed:
  assumes "snd (ticker_step wh tr flds si wi cur_h tc entry) = Inr entry'"
    and "cur_h (fst tc) = Some cur"
  shows "\<exists>prev. previous_of flds si wi (case entry of Some h \<Rightarrow> h | None \<Rightarrow> []) = Inr prev
       \<and> snd (compare_and_alert wh tr (fst tc) (snd tc) cur prev) = None
       \<and> fst (ticker_step wh tr flds si wi cur_h tc entry)
           = fst (compare_and_alert wh tr (fst tc) (snd tc) cur prev)
       \<and> (case entry' of Some h \<Rightarrow> h | None \<Rightarrow> [])
           = (if update_needed cur prev
              then (case entry of Some h \<Rightarrow> h | None \<Rightarrow> []) @ [record_of flds cur]
              else (case entry of Some h \<Rightarrow> h | None \<Rightarrow> []))"
  using assms
  by (auto simp: ticker_step_def split: option.splits sum.splits if_splits)

lemma completed_ticker:
  assumes fin: "out_raised (main w) = None"
    and fetch: "env_fetch w = Inr lines"
    and parse: "parse_csv (env_today w) lines = Inr cur_h"
    and cur: "cur_h t = Some cur"
    and tc: "(t, c) \<in> set TARGET_TICKERS"
  shows "\<exists>prev. latest (env_file w) t = Inr prev
       \<and> snd (compare_and_alert (env_webhook w) (env_transport w) t c cur prev) = None
       \<and> history_of (out_file (main w)) t
           = (if update_needed cur prev
              then history_of (env_file w) t @ [record_of (state_fields (load_state (env_file w))) cur]
              else history_of (env_file w) t)
       \<and> (\<forall>u a. Post u a \<in> set (out_events (main w)) \<and> a_ticker a = t \<longleftrightarrow>
              Post u a \<in> set (fst (compare_and_alert (env_webhook w) (env_transport w) t c cur prev)))"
proof -
  let ?st = "load_state (env_file w)"
  let ?flds = "state_fields ?st"
  from main_completed [OF fin] fetch parse obtain si wi evs data' where
    si: "list_index ''shares'' ?flds = Inr si" and wi: "list_index ''weighting'' ?flds = Inr wi"
    and pt: "process_tickers (env_webhook w) (env_transport w) ?flds si wi cur_h
           TARGET_TICKERS (state_data ?st) = (evs, Inr data')"
    and ofile: "out_file (main w) = Some (?st\<lparr> doc_data := Some data' \<rparr>)"
    and oev: "out_events (main w) = [Print_fetching, Print_parsing, Print_loading] @ evs @ [Print_done]"
    by auto
  let ?step = "ticker_step (env_webhook w) (env_transport w) ?flds si wi cur_h"
  note d = process_tickers_distinct [OF distinct_TARGET_TICKERS pt]
  from d tc have st: "snd (?step (t, c) (state_data ?st t)) = Inr (data' t)" by fastforce
  from d have evs: "evs = concat (map (\<lambda>tc. fst (?step tc (state_data ?st (fst tc)))) TARGET_TICKERS)"
    by blast
  from ticker_step_completed [OF st] cur obtain prev where
    prev: "previous_of ?flds si wi (case state_data ?st t of Some h \<Rightarrow> h | None \<Rightarrow> []) = Inr prev"
    and raised: "snd (compare_and_alert (env_webhook w) (env_transport w) t c cur prev) = None"
    and ev: "fst (?step (t, c) (state_data ?st t))
        = fst (compare_and_alert (env_webhook w) (env_transport w) t c cur prev)"
    and hist: "(case data' t of Some h \<Rightarrow> h | None \<Rightarrow> [])
        = (if update_needed cur prev
           then (case state_data ?st t of Some h \<Rightarrow> h | None \<Rightarrow> []) @ [record_of ?flds cur]
           else (case state_data ?st t of Some h \<Rightarrow> h | None \<Rightarrow> []))"
    by auto
  have h': "history_of (out_file (main w)) t = (case data' t of Some h \<Rightarrow> h | None \<Rightarrow> [])"
    by (simp add: ofile history_of_def load_state_def state_data_def data_get_def)
  have h: "history_of (env_file w) t = (case state_data ?st t of Some h \<Rightarrow> h | None \<Rightarrow> [])"
    by (simp add: history_of_def data_get_def)
  have 1: "latest (env_file w) t = Inr prev"
    by (simp add: latest_def si wi bind_err_def h prev)
  have 3: "history_of (out_file (main w)) t
           = (if update_needed cur prev
              then history_of (env_file w) t @ [record_of ?flds cur]
              else history_of (env_file w) t)"
    by (simp add: h h' hist)
  have 4: "Post u a \<in> set (out_events (main w)) \<and> a_ticker a = t \<longleftrightarrow>
      Post u a \<in> set (fst (compare_and_alert (env_webhook w) (env_transport w) t c cur prev))" for u a
  proof
    assume a: "Post u a \<in> set (out_events (main w)) \<and> a_ticker a = t"
    then have "Post u a \<in> set evs" by (simp add: oev)
    then obtain tc' where tc': "tc' \<in> set TARGET_TICKERS"
      and p: "Post u a \<in> set (fst (?step tc' (state_data ?st (fst tc'))))"
      by (subst (asm) evs) auto
    from ticker_step_post [OF p] a have "fst tc' = t" by simp
    with tc' tc distinct_TARGET_TICKERS have "tc' = (t, c)"
      by (metis eq_key_imp_eq_value prod.collapse)
    with p ev show "Post u a \<in> set (fst (compare_and_alert (env_webhook w) (env_transport w) t c cur prev))"
      by simp
  next
    assume a: "Post u a \<in> set (fst (compare_and_alert (env_webhook w) (env_transport w) t c cur prev))"
    then have "a_ticker a = t" by (auto simp: compare_and_alert_post build_alert_ticker)
    moreover from a ev tc have "Post u a \<in> set evs"
      by (subst evs) force
    ultimately show "Post u a \<in> set (out_events (main w)) \<and> a_ticker a = t"
      by (simp add: oev)
  qed
  from 1 raised 3 4 show ?thesis by blast
qed

lemma round_b64_0: "round_b64 0 = Finite 0"
  by (simp add: round_b64_def)

lemma round_b64_1: "round_b64 1 = Finite 1"
  by (subst round_b64_eval [where e = 0]) (simp_all add: pow2_def round_half_even_def Let_def)

lemma round_b64_5: "round_b64 5 = Finite 5"
  by (subst round_b64_eval [where e = 2]) (simp_all add: pow2_def round_half_even_def Let_def)

lemma round_b64_200: "round_b64 200 = Finite 200"
  by (subst round_b64_eval [where e = 7]) (simp_all add: pow2_def round_half_even_def Let_def)

lemmas eval_row = parse_row_def row_date_def row_shares_def row_weighting_def py_get_def
  TARGET_TICKERS_def reformat_date_def month_text_def int_of_float_def

lemma parse_example_shares:
  "parse_csv ''2020-01-02'' [''Ticker,Shares'', ''MAPS,200'', ''GRWG,5'']
     = Inr [''MAPS'' \<mapsto> \<lparr> date = ''2020-01-02'', shares = 200, weighting = Finite 0 \<rparr>,
            ''GRWG'' \<mapsto> \<lparr> date = ''2020-01-02'', shares = 5, weighting = Finite 0 \<rparr>]"
proof -
  let ?ci = "\<lparr> date_col = - 1, ticker_col = 0, shares_col = 1, weight_col = - 1 \<rparr>"
  have hdr: "find_header 0 (take 10 [''Ticker,Shares'', ''MAPS,200'', ''GRWG,5''])
      = Some (0, [''TICKER'', ''SHARES''])"
    by (simp add: eval_strings has_ticker_def has_shares_def)
  have cols: "resolve_columns [''TICKER'', ''SHARES''] = Inr ?ci"
    by (simp add: resolve_columns_def list_index_def first_index_def)
  have sc: "split_cols ''MAPS,200'' = [''MAPS'', ''200'']" "split_cols ''GRWG,5'' = [''GRWG'', ''5'']"
    "strip ''MAPS,200'' = ''MAPS,200''" "strip ''GRWG,5'' = ''GRWG,5''"
    "upper ''MAPS'' = ''MAPS''" "upper ''GRWG'' = ''GRWG''"
    by (simp_all add: eval_strings)
  have f: "py_float ''200'' = Inr (Finite 200)" "py_float ''5'' = Inr (Finite 5)"
    by (simp_all add: eval_float round_b64_200 round_b64_5)
  have r1: "parse_row ?ci ''2020-01-02'' ''MAPS,200'' h
      = Inr (h(''MAPS'' \<mapsto> \<lparr> date = ''2020-01-02'', shares = 200, weighting = Finite 0 \<rparr>))" for h
    by (simp add: eval_row sc Let_def remove_char_def f)
  have r2: "parse_row ?ci ''2020-01-02'' ''GRWG,5'' h
      = Inr (h(''GRWG'' \<mapsto> \<lparr> date = ''2020-01-02'', shares = 5, weighting = Finite 0 \<rparr>))" for h
    by (simp add: eval_row sc Let_def remove_char_def f)
  show ?thesis
    by (simp add: parse_csv_rows [OF hdr cols] r1 r2)
qed

lemma ticker_step_post_webhook:
  "Post u a \<in> set (fst (ticker_step wh tr flds si wi cur_h tc entry)) \<Longrightarrow> webhook_set wh"
  by (auto simp: ticker_step_def compare_and_alert_post split: option.splits sum.splits)

lemma process_tickers_post_webhook:
  "Post u a \<in> set (fst (process_tickers wh tr flds si wi cur_h tcs data)) \<Longrightarrow> webhook_set wh"
proof (induction tcs arbitrary: data)
  case Nil
  then show ?case by simp
next
  case (Cons tc tcs)
  obtain e1 r1 where p1: "process_ticker wh tr flds si wi cur_h tc data = (e1, r1)"
    by (cases "process_ticker wh tr flds si wi cur_h tc data")
  have e1: "e1 = fst (ticker_step wh tr flds si wi cur_h tc (data (fst tc)))"
    using p1 by (simp add: process_ticker_step)
  show ?case
  proof (cases r1)
    case (Inl e)
    with Cons.prems p1 have "Post u a \<in> set e1" by simp
    then show ?thesis unfolding e1 by (rule ticker_step_post_webhook)
  next
    case (Inr d)
    with Cons.prems p1 have "Post u a \<in> set e1
        \<or> Post u a \<in> set (fst (process_tickers wh tr flds si wi cur_h tcs d))" by simp
    then show ?thesis
    proof
      assume "Post u a \<in> set e1"
      then show ?thesis unfolding e1 by (rule ticker_step_post_webhook)
    next
      assume "Post u a \<in> set (fst (process_tickers wh tr flds si wi cur_h tcs d))"
      then show ?thesis by (rule Cons.IH)
    qed
  qed
qed

lemma main_post_webhook:
  assumes "Post u a \<in> set (out_events (main w))"
  shows "webhook_set (env_webhook w)"
proof (cases "env_fetch w")
  case (Inl e)
  with assms show ?thesis by (simp add: main_def aborted_def)
next
  case (Inr lines)
  show ?thesis
  proof (cases "parse_csv (env_today w) lines")
    case (Inl e)
    with Inr assms show ?thesis by (simp add: main_def aborted_def)
  next
    case h: (Inr h)
    let ?st = "load_state (env_file w)"
    show ?thesis
    proof (cases "list_index ''shares'' (state_fields ?st)")
      case (Inl e)
      with Inr h assms show ?thesis by (simp add: main_def detect_def aborted_def)
    next
      case si: (Inr si)
      show ?thesis
      proof (cases "list_index ''weighting'' (state_fields ?st)")
        case (Inl e)
        with Inr h si assms show ?thesis by (simp add: main_def detect_def aborted_def)
      next
        case wi: (Inr wi)
        let ?pt = "process_tickers (env_webhook w) (env_transport w) (state_fields ?st) si wi h
                     TARGET_TICKERS (state_data ?st)"
        from assms Inr h si wi have "Post u a \<in> set (fst ?pt)"
          by (cases ?pt) (auto simp: main_def detect_def aborted_def Let_def split: sum.splits)
        then show ?thesis by (rule process_tickers_post_webhook)
      qed
    qed
  qed
qed

lemma completed_absent:
  assumes fin: "out_raised (main w) = None"
    and fetch: "env_fetch w = Inr lines"
    and parse: "parse_csv (env_today w) lines = Inr cur_h"
    and cur: "cur_h t = None"
    and tc: "(t, c) \<in> set TARGET_TICKERS"
  shows "history_of (out_file (main w)) t = history_of (env_file w) t
       \<and> \<not> notified (out_events (main w)) t"
proof -
  let ?st = "load_state (env_file w)"
  let ?flds = "state_fields ?st"
  from main_completed [OF fin] fetch parse obtain si wi evs data' where
    pt: "process_tickers (env_webhook w) (env_transport w) ?flds si wi cur_h
           TARGET_TICKERS (state_data ?st) = (evs, Inr data')"
    and ofile: "out_file (main w) = Some (?st\<lparr> doc_data := Some data' \<rparr>)"
    and oev: "out_events (main w) = [Print_fetching, Print_parsing, Print_loading] @ evs @ [Print_done]"
    by auto
  let ?step = "ticker_step (env_webhook w) (env_transport w) ?flds si wi cur_h"
  note d = process_tickers_distinct [OF distinct_TARGET_TICKERS pt]
  from d tc have st: "snd (?step (t, c) (state_data ?st t)) = Inr (data' t)" by fastforce
  from d have evs: "evs = concat (map (\<lambda>tc. fst (?step tc (state_data ?st (fst tc)))) TARGET_TICKERS)"
    by blast
  have s: "?step (t, c) e = ([Print_not_found t], Inr e)" for e
    by (simp add: ticker_step_def cur)
  from st have "data' t = state_data ?st t" by (simp add: s)
  then have 1: "history_of (out_file (main w)) t = history_of (env_file w) t"
    by (simp add: ofile history_of_def load_state_def state_data_def data_get_def)
  have 2: "\<not> notified (out_events (main w)) t"
  proof
    assume "notified (out_events (main w)) t"
    then obtain u a where pa: "Post u a \<in> set (out_events (main w))" and at: "a_ticker a = t"
      by (auto simp: notified_def)
    from pa have "Post u a \<in> set evs" by (simp add: oev)
    then obtain tc' where tc': "tc' \<in> set TARGET_TICKERS"
      and p: "Post u a \<in> set (fst (?step tc' (state_data ?st (fst tc'))))"
      by (subst (asm) evs) auto
    from ticker_step_post [OF p] at have "fst tc' = t" by simp
    with tc' tc distinct_TARGET_TICKERS have "tc' = (t, c)"
      by (metis eq_key_imp_eq_value prod.collapse)
    with p show False by (simp add: s)
  qed
  from 1 2 show ?thesis by blast
qed

lemmas eval_detect = main_def detect_def aborted_def load_state_def state_data_def state_fields_def
  list_index_def first_index_def TARGET_TICKERS_def process_ticker_def previous_of_def py_get_def
  bind_err_def compare_and_alert_def send_discord_alert_def webhook_set_def update_needed_def
  py_ne_def record_of_def get_field_def data_get_def build_alert_def deliver_def float_eq_def
  Let_def

lemmas eval_alert = int_sub.simps py_eq.simps py_truediv.simps mul_100.simps gt_0.simps
  format_2f.simps float_mul.simps float_of_int_def round_b64_0 round_b64_1

lemma run_example_no_webhook:
  "main \<lparr> env_fetch = Inr [''Ticker,Shares'', ''MAPS,200'', ''GRWG,5''],
          env_today = ''2020-01-02'',
          env_file = Some \<lparr> doc_fields = Some [''date'', ''shares'', ''weighting''],
                            doc_data = Some [''MAPS'' \<mapsto> [[JStr ''2020-01-01'', JInt 100, JFloat (Finite 0)]]] \<rparr>,
          env_webhook = None, env_transport = tr \<rparr>
     = \<lparr> out_events = [Print_fetching, Print_parsing, Print_loading,
                       Print_detected ''MAPS'' (JInt 100) 200, Print_no_webhook ''MAPS'',
                       Print_first_time ''GRWG'', Print_done],
         out_raised = None,
         out_file = Some \<lparr> doc_fields = Some [''date'', ''shares'', ''weighting''],
                            doc_data = Some [''MAPS'' \<mapsto> [[JStr ''2020-01-01'', JInt 100, JFloat (Finite 0)],
                                                       [JStr ''2020-01-02'', JInt 200, JFloat (Finite 0)]],
                                             ''GRWG'' \<mapsto> [[JStr ''2020-01-02'', JInt 5, JFloat (Finite 0)]]] \<rparr> \<rparr>"
  by (simp add: eval_detect parse_example_shares)

lemma run_example_webhook:
  "main \<lparr> env_fetch = Inr [''Ticker,Shares'', ''MAPS,200'', ''GRWG,5''],
          env_today = ''2020-01-02'',
          env_file = Some \<lparr> doc_fields = Some [''date'', ''shares'', ''weighting''],
                            doc_data = Some [''MAPS'' \<mapsto> [[JStr ''2020-01-01'', JInt 100, JFloat (Finite 0)]]] \<rparr>,
          env_webhook = Some ''u'', env_transport = (\<lambda>u a. Response 200 []) \<rparr>
     = \<lparr> out_events = [Print_fetching, Print_parsing, Print_loading,
                       Print_detected ''MAPS'' (JInt 100) 200,
                       Post ''u'' \<lparr> a_ticker = ''MAPS'', a_company = ''WM Technology Inc'',
                                   a_date = ''2020-01-02'', a_current_shares = 200,
                                   a_prev_shares = JInt 100, a_delta = JInt 100,
                                   a_percent_change = JFloat (Finite 1), a_increased = True,
                                   a_current_weighting = Finite 0,
                                   a_prev_weighting = Some (JFloat (Finite 0)) \<rparr>,
                       Print_first_time ''GRWG'', Print_done],
         out_raised = None,
         out_file = Some \<lparr> doc_fields = Some [''date'', ''shares'', ''weighting''],
                            doc_data = Some [''MAPS'' \<mapsto> [[JStr ''2020-01-01'', JInt 100, JFloat (Finite 0)],
                                                       [JStr ''2020-01-02'', JInt 200, JFloat (Finite 0)]],
                                             ''GRWG'' \<mapsto> [[JStr ''2020-01-02'', JInt 5, JFloat (Finite 0)]]] \<rparr> \<rparr>"
  by (simp add: eval_detect parse_example_shares eval_alert)

lemma run_example_raises_on_second:
  "main \<lparr> env_fetch = Inr [''Ticker,Shares'', ''MAPS,200'', ''GRWG,5''],
          env_today = ''2020-01-02'',
          env_file = Some \<lparr> doc_fields = Some [''date'', ''shares'', ''weighting''],
                            doc_data = Some [''GRWG'' \<mapsto> [[JStr ''2020-01-01'', JInt 2, JFloat (Finite 0)]]] \<rparr>,
          env_webhook = Some ''u'', env_transport = (\<lambda>u a. Raises) \<rparr>
     = \<lparr> out_events = [Print_fetching, Print_parsing, Print_loading,
                       Print_first_time ''MAPS'',
                       Print_detected ''GRWG'' (JInt 2) 5,
                       Post ''u'' \<lparr> a_ticker = ''GRWG'', a_company = ''GrowGeneration Corp'',
                                   a_date = ''2020-01-02'', a_current_shares = 5,
                                   a_prev_shares = JInt 2, a_delta = JInt 3,
                                   a_percent_change = JFloat (Finite (3 / 2)), a_increased = True,
                                   a_current_weighting = Finite 0,
                                   a_prev_weighting = Some (JFloat (Finite 0)) \<rparr>],
         out_raised = Some TransportError,
         out_file = Some \<lparr> doc_fields = Some [''date'', ''shares'', ''weighting''],
                            doc_data = Some [''GRWG'' \<mapsto> [[JStr ''2020-01-01'', JInt 2, JFloat (Finite 0)]]] \<rparr> \<rparr>"
  by (simp add: eval_detect parse_example_shares eval_alert round_b64_3_2)

lemma run_example_raises_on_first:
  "main \<lparr> env_fetch = Inr [''Ticker,Shares'', ''MAPS,200'', ''GRWG,5''],
          env_today = ''2020-01-02'',
          env_file = Some \<lparr> doc_fields = Some [''date'', ''shares'', ''weighting''],
                            doc_data = Some [''MAPS'' \<mapsto> [[JStr ''2020-01-01'', JInt 100, JFloat (Finite 0)]],
                                             ''GRWG'' \<mapsto> [[JStr ''2020-01-01'', JInt 2, JFloat (Finite 0)]]] \<rparr>,
          env_webhook = Some ''u'', env_transport = (\<lambda>u a. Raises) \<rparr>
     = \<lparr> out_events = [Print_fetching, Print_parsing, Print_loading,
                       Print_detected ''MAPS'' (JInt 100) 200,
                       Post ''u'' \<lparr> a_ticker = ''MAPS'', a_company = ''WM Technology Inc'',
                                   a_date = ''2020-01-02'', a_current_shares = 200,
                                   a_prev_shares = JInt 100, a_delta = JInt 100,
                                   a_percent_change = JFloat (Finite 1), a_increased = True,
                                   a_current_weighting = Finite 0,
                                   a_prev_weighting = Some (JFloat (Finite 0)) \<rparr>],
         out_raised = Some TransportError,
         out_file = Some \<lparr> doc_fields = Some [''date'', ''shares'', ''weighting''],
                            doc_data = Some [''MAPS'' \<mapsto> [[JStr ''2020-01-01'', JInt 100, JFloat (Finite 0)]],
                                             ''GRWG'' \<mapsto> [[JStr ''2020-01-01'', JInt 2, JFloat (Finite 0)]]] \<rparr> \<rparr>"
  by (simp add: eval_detect parse_example_shares eval_alert)

lemma run_example_weighting_only:
  "main \<lparr> env_fetch = Inr [''Ticker,Shares'', ''MAPS,200'', ''GRWG,5''],
          env_today = ''2020-01-02'',
          env_file = Some \<lparr> doc_fields = Some [''date'', ''shares'', ''weighting''],
                            doc_data = Some [''MAPS'' \<mapsto> [[JStr ''2020-01-01'', JInt 200, JFloat (Finite (1 / 2))]],
                                             ''GRWG'' \<mapsto> [[JStr ''2020-01-01'', JInt 5, JFloat (Finite 0)]]] \<rparr>,
          env_webhook = Some ''u'', env_transport = (\<lambda>u a. Response 204 []) \<rparr>
     = \<lparr> out_events = [Print_fetching, Print_parsing, Print_loading, Print_done],
         out_raised = None,
         out_file = Some \<lparr> doc_fields = Some [''date'', ''shares'', ''weighting''],
                            doc_data = Some [''GRWG'' \<mapsto> [[JStr ''2020-01-01'', JInt 5, JFloat (Finite 0)]],
                                             ''MAPS'' \<mapsto> [[JStr ''2020-01-01'', JInt 200, JFloat (Finite (1 / 2))],
                                                       [JStr ''2020-01-02'', JInt 200, JFloat (Finite 0)]]] \<rparr> \<rparr>"
  by (simp add: eval_detect parse_example_shares eval_alert)

text \<open>
  C2 as stated fails in a run that an exception ends. The webhook is set and the post for
  GRWG raises: MAPS has no previous record and GRWG has stored shares 2 against 5 in the
  feed, so the claim has an entry appended for both, but the run ends before
  \<open>save_state\<close> and both histories are as they were.
\<close>

theorem aborted_run_appends_nothing_counterexample:
  "parse_csv ''2020-01-02'' [''Ticker,Shares'', ''MAPS,200'', ''GRWG,5'']
     = Inr [''MAPS'' \<mapsto> \<lparr> date = ''2020-01-02'', shares = 200, weighting = Finite 0 \<rparr>,
            ''GRWG'' \<mapsto> \<lparr> date = ''2020-01-02'', shares = 5, weighting = Finite 0 \<rparr>]
   \<and> latest (Some \<lparr> doc_fields = Some [''date'', ''shares'', ''weighting''],
                    doc_data = Some [''GRWG'' \<mapsto> [[JStr ''2020-01-01'', JInt 2, JFloat (Finite 0)]]] \<rparr>)
        ''MAPS'' = Inr None
   \<and> latest (Some \<lparr> doc_fields = Some [''date'', ''shares'', ''weighting''],
                    doc_data = Some [''GRWG'' \<mapsto> [[JStr ''2020-01-01'', JInt 2, JFloat (Finite 0)]]] \<rparr>)
        ''GRWG''
     = Inr (Some \<lparr> p_date = JStr ''2020-01-01'', p_shares = JInt 2, p_weighting = JFloat (Finite 0) \<rparr>)
   \<and> out_raised (main
        \<lparr> env_fetch = Inr [''Ticker,Shares'', ''MAPS,200'', ''GRWG,5''],
          env_today = ''2020-01-02'',
          env_file = Some \<lparr> doc_fields = Some [''date'', ''shares'', ''weighting''],
                            doc_data = Some [''GRWG'' \<mapsto> [[JStr ''2020-01-01'', JInt 2, JFloat (Finite 0)]]] \<rparr>,
          env_webhook = Some ''u'', env_transport = (\<lambda>u a. Raises) \<rparr>) = Some TransportError
   \<and> history_of (out_file (main
        \<lparr> env_fetch = Inr [''Ticker,Shares'', ''MAPS,200'', ''GRWG,5''],
          env_today = ''2020-01-02'',
          env_file = Some \<lparr> doc_fields = Some [''date'', ''shares'', ''weighting''],
                            doc_data = Some [''GRWG'' \<mapsto> [[JStr ''2020-01-01'', JInt 2, JFloat (Finite 0)]]] \<rparr>,
          env_webhook = Some ''u'', env_transport = (\<lambda>u a. Raises) \<rparr>)) ''MAPS'' = []
   \<and> history_of (out_file (main
        \<lparr> env_fetch = Inr [''Ticker,Shares'', ''MAPS,200'', ''GRWG,5''],
          env_today = ''2020-01-02'',
          env_file = Some \<lparr> doc_fields = Some [''date'', ''shares'', ''weighting''],
                            doc_data = Some [''GRWG'' \<mapsto> [[JStr ''2020-01-01'', JInt 2, JFloat (Finite 0)]]] \<rparr>,
          env_webhook = Some ''u'', env_transport = (\<lambda>u a. Raises) \<rparr>)) ''GRWG''
     = [[JStr ''2020-01-01'', JInt 2, JFloat (Finite 0)]]"
  by (simp add: run_example_raises_on_second parse_example_shares)
    (simp add: latest_def history_of_def eval_detect)

text \<open>
  C2, as the code has it. A run that an exception ends leaves the state file as it was.
  In a run that completes, for a tracked ticker: when the feed does not have the ticker
  its history is unchanged; when the feed has it, the stored history after the run is
  the history before it with the current record appended if there was no previous
  record, or the shares differ, or the weighting differs, and is the history before it
  otherwise. For a stored record with integer shares \<open>n\<close> and float weighting \<open>x\<close> the
  condition is that the current shares are not \<open>n\<close>, or the current weighting is not
  \<open>x\<close>, or it is NaN (which differs from every float). When there was no previous
  record, and when the shares are equal (a change of the weighting alone included), no
  message is posted for the ticker.
\<close>

theorem history_entry_appended_iff_changed:
  "(\<forall>e. out_raised (main w) = Some e \<longrightarrow> out_file (main w) = env_file w)
   \<and> (out_raised (main w) = None \<and> t \<in> fst ` set TARGET_TICKERS \<longrightarrow>
        (\<exists>lines cur_h.
            env_fetch w = Inr lines
          \<and> parse_csv (env_today w) lines = Inr cur_h
          \<and> (cur_h t = None \<longrightarrow> history_of (out_file (main w)) t = history_of (env_file w) t)
          \<and> (\<forall>cur. cur_h t = Some cur \<longrightarrow>
                (\<exists>prev. latest (env_file w) t = Inr prev
                   \<and> (prev = None \<longrightarrow>
                         history_of (out_file (main w)) t
                           = history_of (env_file w) t
                               @ [record_of (state_fields (load_state (env_file w))) cur]
                         \<and> \<not> notified (out_events (main w)) t)
                   \<and> (\<forall>p. prev = Some p \<longrightarrow>
                         history_of (out_file (main w)) t
                           = (if py_ne (JInt (shares cur)) (p_shares p)
                                 \<or> py_ne (JFloat (weighting cur)) (p_weighting p)
                              then history_of (env_file w) t
                                     @ [record_of (state_fields (load_state (env_file w))) cur]
                              else history_of (env_file w) t))
                   \<and> (\<forall>p n x. prev = Some p \<and> p_shares p = JInt n \<and> p_weighting p = JFloat x \<longrightarrow>
                         history_of (out_file (main w)) t
                           = (if shares cur \<noteq> n \<or> weighting cur \<noteq> x \<or> weighting cur = NaN
                              then history_of (env_file w) t
                                     @ [record_of (state_fields (load_state (env_file w))) cur]
                              else history_of (env_file w) t)
                         \<and> (shares cur = n \<longrightarrow> \<not> notified (out_events (main w)) t))))))"
proof (intro conjI allI impI)
  fix e assume "out_raised (main w) = Some e"
  then show "out_file (main w) = env_file w" by (rule main_aborted)
next
  assume a: "out_raised (main w) = None \<and> t \<in> fst ` set TARGET_TICKERS"
  then have fin: "out_raised (main w) = None" and tracked: "t \<in> fst ` set TARGET_TICKERS"
    by simp_all
  from tracked obtain c where tc: "(t, c) \<in> set TARGET_TICKERS" by auto
  from main_completed [OF fin] obtain lines cur_h where
    fetch: "env_fetch w = Inr lines" and parse: "parse_csv (env_today w) lines = Inr cur_h"
    by blast
  let ?H = "history_of (env_file w) t"
  let ?H' = "history_of (out_file (main w)) t"
  let ?r = "\<lambda>cur. record_of (state_fields (load_state (env_file w))) cur"
  have absent: "?H' = ?H" if "cur_h t = None"
    using completed_absent [OF fin fetch parse that tc] by simp
  have present: "\<exists>prev. latest (env_file w) t = Inr prev
       \<and> (prev = None \<longrightarrow> ?H' = ?H @ [?r cur] \<and> \<not> notified (out_events (main w)) t)
       \<and> (\<forall>p. prev = Some p \<longrightarrow>
             ?H' = (if py_ne (JInt (shares cur)) (p_shares p)
                       \<or> py_ne (JFloat (weighting cur)) (p_weighting p)
                    then ?H @ [?r cur] else ?H))
       \<and> (\<forall>p n x. prev = Some p \<and> p_shares p = JInt n \<and> p_weighting p = JFloat x \<longrightarrow>
             ?H' = (if shares cur \<noteq> n \<or> weighting cur \<noteq> x \<or> weighting cur = NaN
                    then ?H @ [?r cur] else ?H)
             \<and> (shares cur = n \<longrightarrow> \<not> notified (out_events (main w)) t))"
    if cur: "cur_h t = Some cur" for cur
  proof -
    from completed_ticker [OF fin fetch parse cur tc] obtain prev where
      l: "latest (env_file w) t = Inr prev"
      and h: "?H' = (if update_needed cur prev then ?H @ [?r cur] else ?H)"
      and p: "\<forall>u a. Post u a \<in> set (out_events (main w)) \<and> a_ticker a = t \<longleftrightarrow>
                Post u a \<in> set (fst (compare_and_alert (env_webhook w) (env_transport w) t c cur prev))"
      by blast
    have nn: "\<not> notified (out_events (main w)) t"
      if "case prev of None \<Rightarrow> True | Some p \<Rightarrow> \<not> py_ne (JInt (shares cur)) (p_shares p)"
      using that p by (auto simp: notified_def compare_and_alert_post split: option.splits)
    have 1: "?H' = ?H @ [?r cur] \<and> \<not> notified (out_events (main w)) t" if "prev = None"
      using that h nn by (simp add: update_needed_def)
    have 2: "?H' = (if py_ne (JInt (shares cur)) (p_shares p')
                       \<or> py_ne (JFloat (weighting cur)) (p_weighting p')
                    then ?H @ [?r cur] else ?H)" if "prev = Some p'" for p'
      using that h by (simp add: update_needed_def)
    have 3: "?H' = (if shares cur \<noteq> n \<or> weighting cur \<noteq> x \<or> weighting cur = NaN
                    then ?H @ [?r cur] else ?H)
             \<and> (shares cur = n \<longrightarrow> \<not> notified (out_events (main w)) t)"
      if "prev = Some p' \<and> p_shares p' = JInt n \<and> p_weighting p' = JFloat x" for p' n x
    proof -
      from that have pr: "prev = Some p'" and sh: "p_shares p' = JInt n"
        and we: "p_weighting p' = JFloat x" by simp_all
      have c: "py_ne (JInt (shares cur)) (p_shares p') \<or> py_ne (JFloat (weighting cur)) (p_weighting p')
          \<longleftrightarrow> shares cur \<noteq> n \<or> weighting cur \<noteq> x \<or> weighting cur = NaN"
        by (auto simp: sh we py_ne_def float_eq_def)
      have "\<not> notified (out_events (main w)) t" if "shares cur = n"
        using nn that by (simp add: pr sh py_ne_def)
      with 2 [OF pr] c show ?thesis by simp
    qed
    from l 1 2 3 show ?thesis by blast
  qed
  show "\<exists>lines cur_h.
            env_fetch w = Inr lines
          \<and> parse_csv (env_today w) lines = Inr cur_h
          \<and> (cur_h t = None \<longrightarrow> ?H' = ?H)
          \<and> (\<forall>cur. cur_h t = Some cur \<longrightarrow>
                (\<exists>prev. latest (env_file w) t = Inr prev
                   \<and> (prev = None \<longrightarrow> ?H' = ?H @ [?r cur] \<and> \<not> notified (out_events (main w)) t)
                   \<and> (\<forall>p. prev = Some p \<longrightarrow>
                         ?H' = (if py_ne (JInt (shares cur)) (p_shares p)
                                   \<or> py_ne (JFloat (weighting cur)) (p_weighting p)
                                then ?H @ [?r cur] else ?H))
                   \<and> (\<forall>p n x. prev = Some p \<and> p_shares p = JInt n \<and> p_weighting p = JFloat x \<longrightarrow>
                         ?H' = (if shares cur \<noteq> n \<or> weighting cur \<noteq> x \<or> weighting cur = NaN
                                then ?H @ [?r cur] else ?H)
                         \<and> (shares cur = n \<longrightarrow> \<not> notified (out_events (main w)) t))))"
  proof (intro exI [of _ lines] exI [of _ cur_h] conjI)
    show "env_fetch w = Inr lines" by (rule fetch)
    show "parse_csv (env_today w) lines = Inr cur_h" by (rule parse)
    show "cur_h t = None \<longrightarrow> ?H' = ?H" using absent by blast
    show "\<forall>cur. cur_h t = Some cur \<longrightarrow>
                (\<exists>prev. latest (env_file w) t = Inr prev
                   \<and> (prev = None \<longrightarrow> ?H' = ?H @ [?r cur] \<and> \<not> notified (out_events (main w)) t)
                   \<and> (\<forall>p. prev = Some p \<longrightarrow>
                         ?H' = (if py_ne (JInt (shares cur)) (p_shares p)
                                   \<or> py_ne (JFloat (weighting cur)) (p_weighting p)
                                then ?H @ [?r cur] else ?H))
                   \<and> (\<forall>p n x. prev = Some p \<and> p_shares p = JInt n \<and> p_weighting p = JFloat x \<longrightarrow>
                         ?H' = (if shares cur \<noteq> n \<or> weighting cur \<noteq> x \<or> weighting cur = NaN
                                then ?H @ [?r cur] else ?H)
                         \<and> (shares cur = n \<longrightarrow> \<not> notified (out_events (main w)) t)))"
      by (intro allI impI) (rule present)
  qed
qed

theorem history_entry_appended_iff_changed_witness:
  "history_of (out_file (main
      \<lparr> env_fetch = Inr [''Ticker,Shares'', ''MAPS,200'', ''GRWG,5''],
        env_today = ''2020-01-02'',
        env_file = Some \<lparr> doc_fields = Some [''date'', ''shares'', ''weighting''],
                          doc_data = Some [''MAPS'' \<mapsto> [[JStr ''2020-01-01'', JInt 200, JFloat (Finite (1 / 2))]],
                                           ''GRWG'' \<mapsto> [[JStr ''2020-01-01'', JInt 5, JFloat (Finite 0)]]] \<rparr>,
        env_webhook = Some ''u'', env_transport = (\<lambda>u a. Response 204 []) \<rparr>)) ''MAPS''
     = [[JStr ''2020-01-01'', JInt 200, JFloat (Finite (1 / 2))],
        [JStr ''2020-01-02'', JInt 200, JFloat (Finite 0)]]
   \<and> \<not> notified (out_events (main
      \<lparr> env_fetch = Inr [''Ticker,Shares'', ''MAPS,200'', ''GRWG,5''],
        env_today = ''2020-01-02'',
        env_file = Some \<lparr> doc_fields = Some [''date'', ''shares'', ''weighting''],
                          doc_data = Some [''MAPS'' \<mapsto> [[JStr ''2020-01-01'', JInt 200, JFloat (Finite (1 / 2))]],
                                           ''GRWG'' \<mapsto> [[JStr ''2020-01-01'', JInt 5, JFloat (Finite 0)]]] \<rparr>,
        env_webhook = Some ''u'', env_transport = (\<lambda>u a. Response 204 []) \<rparr>)) ''MAPS''
   \<and> history_of (out_file (main
      \<lparr> env_fetch = Inr [''Ticker,Shares'', ''MAPS,200'', ''GRWG,5''],
        env_today = ''2020-01-02'',
        env_file = Some \<lparr> doc_fields = Some [''date'', ''shares'', ''weighting''],
                          doc_data = Some [''MAPS'' \<mapsto> [[JStr ''2020-01-01'', JInt 200, JFloat (Finite (1 / 2))]],
                                           ''GRWG'' \<mapsto> [[JStr ''2020-01-01'', JInt 5, JFloat (Finite 0)]]] \<rparr>,
        env_webhook = Some ''u'', env_transport = (\<lambda>u a. Response 204 []) \<rparr>)) ''GRWG''
     = [[JStr ''2020-01-01'', JInt 5, JFloat (Finite 0)]]"
proof -
  let ?f = "Some \<lparr> doc_fields = Some [''date'', ''shares'', ''weighting''],
                          doc_data = Some [''MAPS'' \<mapsto> [[JStr ''2020-01-01'', JInt 200, JFloat (Finite (1 / 2))]],
                                           ''GRWG'' \<mapsto> [[JStr ''2020-01-01'', JInt 5, JFloat (Finite 0)]]] \<rparr>"
  let ?w = "\<lparr> env_fetch = Inr [''Ticker,Shares'', ''MAPS,200'', ''GRWG,5''],
        env_today = ''2020-01-02'', env_file = ?f,
        env_webhook = Some ''u'', env_transport = (\<lambda>u a. Response 204 []) \<rparr>"
  let ?m = "\<lparr> date = ''2020-01-02'', shares = 200, weighting = Finite 0 \<rparr>"
  let ?g = "\<lparr> date = ''2020-01-02'', shares = 5, weighting = Finite 0 \<rparr>"
  let ?pm = "\<lparr> p_date = JStr ''2020-01-01'', p_shares = JInt 200, p_weighting = JFloat (Finite (1 / 2)) \<rparr>"
  let ?pg = "\<lparr> p_date = JStr ''2020-01-01'', p_shares = JInt 5, p_weighting = JFloat (Finite 0) \<rparr>"
  have fin: "out_raised (main ?w) = None" by (simp add: run_example_weighting_only)
  have tm: "''MAPS'' \<in> fst ` set TARGET_TICKERS" and tg: "''GRWG'' \<in> fst ` set TARGET_TICKERS"
    by (simp_all add: TARGET_TICKERS_def)
  have lm: "latest (env_file ?w) ''MAPS'' = Inr (Some ?pm)"
    by (simp add: latest_def history_of_def eval_detect)
  have lg: "latest (env_file ?w) ''GRWG'' = Inr (Some ?pg)"
    by (simp add: latest_def history_of_def eval_detect)
  have hm: "history_of (env_file ?w) ''MAPS'' = [[JStr ''2020-01-01'', JInt 200, JFloat (Finite (1 / 2))]]"
    by (simp add: history_of_def eval_detect)
  have hg: "history_of (env_file ?w) ''GRWG'' = [[JStr ''2020-01-01'', JInt 5, JFloat (Finite 0)]]"
    by (simp add: history_of_def eval_detect)
  have gen: "history_of (out_file (main ?w)) t
        = (if shares cur \<noteq> n \<or> weighting cur \<noteq> x \<or> weighting cur = NaN
           then history_of (env_file ?w) t @ [record_of (state_fields (load_state (env_file ?w))) cur]
           else history_of (env_file ?w) t)
      \<and> (shares cur = n \<longrightarrow> \<not> notified (out_events (main ?w)) t)"
    if t: "t \<in> fst ` set TARGET_TICKERS"
      and c: "[''MAPS'' \<mapsto> ?m, ''GRWG'' \<mapsto> ?g] t = Some cur"
      and l: "latest (env_file ?w) t = Inr (Some p)"
      and s: "p_shares p = JInt n" and x: "p_weighting p = JFloat x" for t cur p n x
  proof -
    from history_entry_appended_iff_changed [of ?w t, THEN conjunct2, THEN mp, OF conjI [OF fin t]]
    obtain lines cur_h where f: "env_fetch ?w = Inr lines"
      and p: "parse_csv (env_today ?w) lines = Inr cur_h"
      and pres: "\<forall>cur. cur_h t = Some cur \<longrightarrow>
                (\<exists>prev. latest (env_file ?w) t = Inr prev
                   \<and> (prev = None \<longrightarrow>
                         history_of (out_file (main ?w)) t
                           = history_of (env_file ?w) t
                               @ [record_of (state_fields (load_state (env_file ?w))) cur]
                         \<and> \<not> notified (out_events (main ?w)) t)
                   \<and> (\<forall>p. prev = Some p \<longrightarrow>
                         history_of (out_file (main ?w)) t
                           = (if py_ne (JInt (shares cur)) (p_shares p)
                                 \<or> py_ne (JFloat (weighting cur)) (p_weighting p)
                              then history_of (env_file ?w) t
                                     @ [record_of (state_fields (load_state (env_file ?w))) cur]
                              else history_of (env_file ?w) t))
                   \<and> (\<forall>p n x. prev = Some p \<and> p_shares p = JInt n \<and> p_weighting p = JFloat x \<longrightarrow>
                         history_of (out_file (main ?w)) t
                           = (if shares cur \<noteq> n \<or> weighting cur \<noteq> x \<or> weighting cur = NaN
                              then history_of (env_file ?w) t
                                     @ [record_of (state_fields (load_state (env_file ?w))) cur]
                              else history_of (env_file ?w) t)
                         \<and> (shares cur = n \<longrightarrow> \<not> notified (out_events (main ?w)) t)))"
      by (elim exE conjE)
    from f have "lines = [''Ticker,Shares'', ''MAPS,200'', ''GRWG,5'']" by simp
    with p have "cur_h = [''MAPS'' \<mapsto> ?m, ''GRWG'' \<mapsto> ?g]" by (simp add: parse_example_shares)
    with c have "cur_h t = Some cur" by simp
    with pres obtain prev where l': "latest (env_file ?w) t = Inr prev"
      and typed: "\<forall>p n x. prev = Some p \<and> p_shares p = JInt n \<and> p_weighting p = JFloat x \<longrightarrow>
                         history_of (out_file (main ?w)) t
                           = (if shares cur \<noteq> n \<or> weighting cur \<noteq> x \<or> weighting cur = NaN
                              then history_of (env_file ?w) t
                                     @ [record_of (state_fields (load_state (env_file ?w))) cur]
                              else history_of (env_file ?w) t)
                         \<and> (shares cur = n \<longrightarrow> \<not> notified (out_events (main ?w)) t)"
      by blast
    from l l' have "prev = Some p" by simp
    with typed s x show ?thesis by blast
  qed
  have r: "record_of (state_fields (load_state (env_file ?w))) ?m
      = [JStr ''2020-01-02'', JInt 200, JFloat (Finite 0)]"
    by (simp add: record_of_def get_field_def state_fields_def load_state_def)
  have cm: "[''MAPS'' \<mapsto> ?m, ''GRWG'' \<mapsto> ?g] ''MAPS'' = Some ?m" by simp
  have cg: "[''MAPS'' \<mapsto> ?m, ''GRWG'' \<mapsto> ?g] ''GRWG'' = Some ?g" by simp
  have sm: "p_shares ?pm = JInt 200" and xm: "p_weighting ?pm = JFloat (Finite (1 / 2))"
    and sg: "p_shares ?pg = JInt 5" and xg: "p_weighting ?pg = JFloat (Finite 0)"
    by simp_all
  from gen [OF tm cm lm sm xm] hm r
  have 1: "history_of (out_file (main ?w)) ''MAPS''
      = [[JStr ''2020-01-01'', JInt 200, JFloat (Finite (1 / 2))],
         [JStr ''2020-01-02'', JInt 200, JFloat (Finite 0)]]"
    and 2: "\<not> notified (out_events (main ?w)) ''MAPS''"
    by simp_all
  from gen [OF tg cg lg sg xg] hg
  have 3: "history_of (out_file (main ?w)) ''GRWG'' = [[JStr ''2020-01-01'', JInt 5, JFloat (Finite 0)]]"
    by simp
  from 1 2 3 show ?thesis by blast
qed

text \<open>
  C1 as stated fails in two ways. When the webhook variable is not set, the stored shares
  of MAPS are 100, the feed has 200, and the run prints two lines for MAPS and posts
  nothing. When the webhook is set and the post for MAPS raises, the run ends there:
  the stored shares of GRWG are 2, the feed has 5, and nothing is posted for GRWG.
\<close>

theorem share_change_without_notification_counterexample:
  "parse_csv ''2020-01-02'' [''Ticker,Shares'', ''MAPS,200'', ''GRWG,5'']
     = Inr [''MAPS'' \<mapsto> \<lparr> date = ''2020-01-02'', shares = 200, weighting = Finite 0 \<rparr>,
            ''GRWG'' \<mapsto> \<lparr> date = ''2020-01-02'', shares = 5, weighting = Finite 0 \<rparr>]
   \<and> latest (Some \<lparr> doc_fields = Some [''date'', ''shares'', ''weighting''],
                  doc_data = Some [''MAPS'' \<mapsto> [[JStr ''2020-01-01'', JInt 100, JFloat (Finite 0)]]] \<rparr>)
       ''MAPS''
     = Inr (Some \<lparr> p_date = JStr ''2020-01-01'', p_shares = JInt 100, p_weighting = JFloat (Finite 0) \<rparr>)
   \<and> out_events (main
        \<lparr> env_fetch = Inr [''Ticker,Shares'', ''MAPS,200'', ''GRWG,5''],
          env_today = ''2020-01-02'',
          env_file = Some \<lparr> doc_fields = Some [''date'', ''shares'', ''weighting''],
                            doc_data = Some [''MAPS'' \<mapsto> [[JStr ''2020-01-01'', JInt 100, JFloat (Finite 0)]]] \<rparr>,
          env_webhook = None, env_transport = (\<lambda>u a. Response 204 []) \<rparr>)
     = [Print_fetching, Print_parsing, Print_loading,
        Print_detected ''MAPS'' (JInt 100) 200, Print_no_webhook ''MAPS'',
        Print_first_time ''GRWG'', Print_done]
   \<and> \<not> notified (out_events (main
        \<lparr> env_fetch = Inr [''Ticker,Shares'', ''MAPS,200'', ''GRWG,5''],
          env_today = ''2020-01-02'',
          env_file = Some \<lparr> doc_fields = Some [''date'', ''shares'', ''weighting''],
                            doc_data = Some [''MAPS'' \<mapsto> [[JStr ''2020-01-01'', JInt 100, JFloat (Finite 0)]]] \<rparr>,
          env_webhook = None, env_transport = (\<lambda>u a. Response 204 []) \<rparr>)) ''MAPS''
   \<and> latest (Some \<lparr> doc_fields = Some [''date'', ''shares'', ''weighting''],
                  doc_data = Some [''MAPS'' \<mapsto> [[JStr ''2020-01-01'', JInt 100, JFloat (Finite 0)]],
                                   ''GRWG'' \<mapsto> [[JStr ''2020-01-01'', JInt 2, JFloat (Finite 0)]]] \<rparr>)
       ''GRWG''
     = Inr (Some \<lparr> p_date = JStr ''2020-01-01'', p_shares = JInt 2, p_weighting = JFloat (Finite 0) \<rparr>)
   \<and> webhook_set (Some ''u'')
   \<and> out_raised (main
        \<lparr> env_fetch = Inr [''Ticker,Shares'', ''MAPS,200'', ''GRWG,5''],
          env_today = ''2020-01-02'',
          env_file = Some \<lparr> doc_fields = Some [''date'', ''shares'', ''weighting''],
                            doc_data = Some [''MAPS'' \<mapsto> [[JStr ''2020-01-01'', JInt 100, JFloat (Finite 0)]],
                                             ''GRWG'' \<mapsto> [[JStr ''2020-01-01'', JInt 2, JFloat (Finite 0)]]] \<rparr>,
          env_webhook = Some ''u'', env_transport = (\<lambda>u a. Raises) \<rparr>) = Some TransportError
   \<and> \<not> notified (out_events (main
        \<lparr> env_fetch = Inr [''Ticker,Shares'', ''MAPS,200'', ''GRWG,5''],
          env_today = ''2020-01-02'',
          env_file = Some \<lparr> doc_fields = Some [''date'', ''shares'', ''weighting''],
                            doc_data = Some [''MAPS'' \<mapsto> [[JStr ''2020-01-01'', JInt 100, JFloat (Finite 0)]],
                                             ''GRWG'' \<mapsto> [[JStr ''2020-01-01'', JInt 2, JFloat (Finite 0)]]] \<rparr>,
          env_webhook = Some ''u'', env_transport = (\<lambda>u a. Raises) \<rparr>)) ''GRWG''"
  by (simp add: run_example_no_webhook run_example_raises_on_first parse_example_shares
      notified_def webhook_set_def)
    (simp add: latest_def history_of_def eval_detect)

text \<open>
  C1, as the code has it. When the webhook variable is not set, no message is posted
  for any ticker. In a run that completes with the webhook variable set, for a tracked
  ticker: when the feed does not have the ticker, and on a first observation, nothing is
  posted; when the stored record has integer shares \<open>n\<close>, a message is posted for the
  ticker exactly when the current shares differ from \<open>n\<close>, and a posted message carries
  the difference and the percent change, which is the float quotient of the difference
  by \<open>n\<close> when \<open>n\<close> is not zero and the int \<open>0\<close> otherwise.
\<close>

theorem notification_iff_shares_changed:
  "(\<not> webhook_set (env_webhook w) \<longrightarrow> \<not> notified (out_events (main w)) t)
   \<and> (webhook_set (env_webhook w) \<and> out_raised (main w) = None
        \<and> t \<in> fst ` set TARGET_TICKERS \<longrightarrow>
        (\<exists>lines cur_h.
            env_fetch w = Inr lines
          \<and> parse_csv (env_today w) lines = Inr cur_h
          \<and> (cur_h t = None \<longrightarrow> \<not> notified (out_events (main w)) t)
          \<and> (\<forall>cur. cur_h t = Some cur \<longrightarrow>
                (\<exists>prev. latest (env_file w) t = Inr prev
                   \<and> (prev = None \<longrightarrow> \<not> notified (out_events (main w)) t)
                   \<and> (\<forall>p n. prev = Some p \<and> p_shares p = JInt n \<longrightarrow>
                         (notified (out_events (main w)) t \<longleftrightarrow> shares cur \<noteq> n)
                         \<and> (\<forall>u a. Post u a \<in> set (out_events (main w)) \<and> a_ticker a = t \<longrightarrow>
                               a_delta a = JInt (shares cur - n)
                               \<and> a_percent_change a =
                                   (if n = 0 then JInt 0
                                    else JFloat (round_b64 (of_int (shares cur - n) / of_int n)))))))))"
proof (intro conjI impI)
  assume nw: "\<not> webhook_set (env_webhook w)"
  show "\<not> notified (out_events (main w)) t"
  proof
    assume "notified (out_events (main w)) t"
    then obtain u a where "Post u a \<in> set (out_events (main w))" by (auto simp: notified_def)
    then have "webhook_set (env_webhook w)" by (rule main_post_webhook)
    with nw show False by simp
  qed
next
  assume a: "webhook_set (env_webhook w) \<and> out_raised (main w) = None
      \<and> t \<in> fst ` set TARGET_TICKERS"
  then have webhook: "webhook_set (env_webhook w)" and fin: "out_raised (main w) = None"
    and tracked: "t \<in> fst ` set TARGET_TICKERS" by simp_all
  from tracked obtain c where tc: "(t, c) \<in> set TARGET_TICKERS" by auto
  from main_completed [OF fin] obtain lines cur_h where
    fetch: "env_fetch w = Inr lines" and parse: "parse_csv (env_today w) lines = Inr cur_h"
    by blast
  let ?ca = "compare_and_alert (env_webhook w) (env_transport w) t c"
  have absent: "\<not> notified (out_events (main w)) t" if "cur_h t = None"
    using completed_absent [OF fin fetch parse that tc] by simp
  have present: "\<exists>prev. latest (env_file w) t = Inr prev
       \<and> (prev = None \<longrightarrow> \<not> notified (out_events (main w)) t)
       \<and> (\<forall>p n. prev = Some p \<and> p_shares p = JInt n \<longrightarrow>
             (notified (out_events (main w)) t \<longleftrightarrow> shares cur \<noteq> n)
             \<and> (\<forall>u a. Post u a \<in> set (out_events (main w)) \<and> a_ticker a = t \<longrightarrow>
                   a_delta a = JInt (shares cur - n)
                   \<and> a_percent_change a =
                       (if n = 0 then JInt 0
                        else JFloat (round_b64 (of_int (shares cur - n) / of_int n)))))"
    if cur: "cur_h t = Some cur" for cur
  proof -
    from completed_ticker [OF fin fetch parse cur tc] obtain prev where
      l: "latest (env_file w) t = Inr prev"
      and r: "snd (?ca cur prev) = None"
      and p: "\<forall>u a. Post u a \<in> set (out_events (main w)) \<and> a_ticker a = t \<longleftrightarrow>
                Post u a \<in> set (fst (?ca cur prev))"
      by blast
    have n: "notified (out_events (main w)) t \<longleftrightarrow> (\<exists>u a. Post u a \<in> set (fst (?ca cur prev)))"
      using p by (auto simp: notified_def)
    have 1: "\<not> notified (out_events (main w)) t" if "prev = None"
      using that by (simp add: n compare_and_alert_post)
    have 2: "(notified (out_events (main w)) t \<longleftrightarrow> shares cur \<noteq> n)
        \<and> (\<forall>u a. Post u a \<in> set (out_events (main w)) \<and> a_ticker a = t \<longrightarrow>
              a_delta a = JInt (shares cur - n)
              \<and> a_percent_change a =
                  (if n = 0 then JInt 0
                   else JFloat (round_b64 (of_int (shares cur - n) / of_int n))))"
      if pr: "prev = Some p'" and sh: "p_shares p' = JInt n" for p' n
    proof (intro conjI allI impI)
      show "notified (out_events (main w)) t \<longleftrightarrow> shares cur \<noteq> n"
      proof
        assume "notified (out_events (main w)) t"
        then obtain u a where "Post u a \<in> set (fst (?ca cur prev))" using n by blast
        then have "build_alert t c cur (Some p') = Inr (Some a)"
          by (simp add: compare_and_alert_post pr)
        from build_alert_int [OF sh this] show "shares cur \<noteq> n" by simp
      next
        assume ne: "shares cur \<noteq> n"
        then have pn: "py_ne (JInt (shares cur)) (p_shares p')" by (simp add: sh py_ne_def)
        from compare_and_alert_raised [OF r [unfolded pr] pn webhook]
        obtain x where b: "build_alert t c cur (Some p') = Inr x" by blast
        with build_alert_int_None [OF sh] ne obtain a where "x = Some a" by (cases x) auto
        with b pn webhook have "Post (the (env_webhook w)) a \<in> set (fst (?ca cur prev))"
          by (simp add: compare_and_alert_post pr)
        then show "notified (out_events (main w)) t" using n by blast
      qed
    next
      fix u a
      assume "Post u a \<in> set (out_events (main w)) \<and> a_ticker a = t"
      with p have "Post u a \<in> set (fst (?ca cur prev))" by blast
      then have b: "build_alert t c cur (Some p') = Inr (Some a)"
        by (simp add: compare_and_alert_post pr)
      from build_alert_int [OF sh b]
      show "a_delta a = JInt (shares cur - n)"
        and "a_percent_change a =
                  (if n = 0 then JInt 0
                   else JFloat (round_b64 (of_int (shares cur - n) / of_int n)))"
        by simp_all
    qed
    from l 1 2 show ?thesis by blast
  qed
  show "\<exists>lines cur_h.
            env_fetch w = Inr lines
          \<and> parse_csv (env_today w) lines = Inr cur_h
          \<and> (cur_h t = None \<longrightarrow> \<not> notified (out_events (main w)) t)
          \<and> (\<forall>cur. cur_h t = Some cur \<longrightarrow>
                (\<exists>prev. latest (env_file w) t = Inr prev
                   \<and> (prev = None \<longrightarrow> \<not> notified (out_events (main w)) t)
                   \<and> (\<forall>p n. prev = Some p \<and> p_shares p = JInt n \<longrightarrow>
                         (notified (out_events (main w)) t \<longleftrightarrow> shares cur \<noteq> n)
                         \<and> (\<forall>u a. Post u a \<in> set (out_events (main w)) \<and> a_ticker a = t \<longrightarrow>
                               a_delta a = JInt (shares cur - n)
                               \<and> a_percent_change a =
                                   (if n = 0 then JInt 0
                                    else JFloat (round_b64 (of_int (shares cur - n) / of_int n)))))))"
  proof (intro exI [of _ lines] exI [of _ cur_h] conjI)
    show "env_fetch w = Inr lines" by (rule fetch)
    show "parse_csv (env_today w) lines = Inr cur_h" by (rule parse)
    show "cur_h t = None \<longrightarrow> \<not> notified (out_events (main w)) t" using absent by blast
    show "\<forall>cur. cur_h t = Some cur \<longrightarrow>
                (\<exists>prev. latest (env_file w) t = Inr prev
                   \<and> (prev = None \<longrightarrow> \<not> notified (out_events (main w)) t)
                   \<and> (\<forall>p n. prev = Some p \<and> p_shares p = JInt n \<longrightarrow>
                         (notified (out_events (main w)) t \<longleftrightarrow> shares cur \<noteq> n)
                         \<and> (\<forall>u a. Post u a \<in> set (out_events (main w)) \<and> a_ticker a = t \<longrightarrow>
                               a_delta a = JInt (shares cur - n)
                               \<and> a_percent_change a =
                                   (if n = 0 then JInt 0
                                    else JFloat (round_b64 (of_int (shares cur - n) / of_int n))))))"
      by (intro allI impI) (rule present)
  qed
qed

theorem notification_iff_shares_changed_witness:
  "notified (out_events (main
      \<lparr> env_fetch = Inr [''Ticker,Shares'', ''MAPS,200'', ''GRWG,5''],
        env_today = ''2020-01-02'',
        env_file = Some \<lparr> doc_fields = Some [''date'', ''shares'', ''weighting''],
                          doc_data = Some [''MAPS'' \<mapsto> [[JStr ''2020-01-01'', JInt 100, JFloat (Finite 0)]]] \<rparr>,
        env_webhook = Some ''u'', env_transport = (\<lambda>u a. Response 200 []) \<rparr>)) ''MAPS''
   \<and> \<not> notified (out_events (main
      \<lparr> env_fetch = Inr [''Ticker,Shares'', ''MAPS,200'', ''GRWG,5''],
        env_today = ''2020-01-02'',
        env_file = Some \<lparr> doc_fields = Some [''date'', ''shares'', ''weighting''],
                          doc_data = Some [''MAPS'' \<mapsto> [[JStr ''2020-01-01'', JInt 100, JFloat (Finite 0)]]] \<rparr>,
        env_webhook = Some ''u'', env_transport = (\<lambda>u a. Response 200 []) \<rparr>)) ''GRWG''
   \<and> \<not> notified (out_events (main
      \<lparr> env_fetch = Inr [''Ticker,Shares'', ''MAPS,200'', ''GRWG,5''],
        env_today = ''2020-01-02'',
        env_file = Some \<lparr> doc_fields = Some [''date'', ''shares'', ''weighting''],
                          doc_data = Some [''MAPS'' \<mapsto> [[JStr ''2020-01-01'', JInt 200, JFloat (Finite (1 / 2))]],
                                           ''GRWG'' \<mapsto> [[JStr ''2020-01-01'', JInt 5, JFloat (Finite 0)]]] \<rparr>,
        env_webhook = Some ''u'', env_transport = (\<lambda>u a. Response 204 []) \<rparr>)) ''MAPS''
   \<and> \<not> notified (out_events (main
      \<lparr> env_fetch = Inr [''Ticker,Shares'', ''MAPS,200'', ''GRWG,5''],
        env_today = ''2020-01-02'',
        env_file = Some \<lparr> doc_fields = Some [''date'', ''shares'', ''weighting''],
                          doc_data = Some [''MAPS'' \<mapsto> [[JStr ''2020-01-01'', JInt 100, JFloat (Finite 0)]]] \<rparr>,
        env_webhook = None, env_transport = (\<lambda>u a. Response 200 []) \<rparr>)) ''MAPS''"
proof -
  let ?f = "Some \<lparr> doc_fields = Some [''date'', ''shares'', ''weighting''],
                    doc_data = Some [''MAPS'' \<mapsto> [[JStr ''2020-01-01'', JInt 100, JFloat (Finite 0)]]] \<rparr>"
  let ?fb = "Some \<lparr> doc_fields = Some [''date'', ''shares'', ''weighting''],
                          doc_data = Some [''MAPS'' \<mapsto> [[JStr ''2020-01-01'', JInt 200, JFloat (Finite (1 / 2))]],
                                           ''GRWG'' \<mapsto> [[JStr ''2020-01-01'', JInt 5, JFloat (Finite 0)]]] \<rparr>"
  let ?w = "\<lparr> env_fetch = Inr [''Ticker,Shares'', ''MAPS,200'', ''GRWG,5''],
        env_today = ''2020-01-02'', env_file = ?f,
        env_webhook = Some ''u'', env_transport = (\<lambda>u a. Response 200 []) \<rparr>"
  let ?wb = "\<lparr> env_fetch = Inr [''Ticker,Shares'', ''MAPS,200'', ''GRWG,5''],
        env_today = ''2020-01-02'', env_file = ?fb,
        env_webhook = Some ''u'', env_transport = (\<lambda>u a. Response 204 []) \<rparr>"
  let ?wn = "\<lparr> env_fetch = Inr [''Ticker,Shares'', ''MAPS,200'', ''GRWG,5''],
        env_today = ''2020-01-02'', env_file = ?f,
        env_webhook = None, env_transport = (\<lambda>u a. Response 200 []) \<rparr>"
  let ?m = "\<lparr> date = ''2020-01-02'', shares = 200, weighting = Finite 0 \<rparr>"
  let ?g = "\<lparr> date = ''2020-01-02'', shares = 5, weighting = Finite 0 \<rparr>"
  let ?pm = "\<lparr> p_date = JStr ''2020-01-01'', p_shares = JInt 100, p_weighting = JFloat (Finite 0) \<rparr>"
  let ?pmb = "\<lparr> p_date = JStr ''2020-01-01'', p_shares = JInt 200, p_weighting = JFloat (Finite (1 / 2)) \<rparr>"
  have fin: "out_raised (main ?w) = None" by (simp add: run_example_webhook)
  have fin2: "out_raised (main ?wb) = None" by (simp add: run_example_weighting_only)
  have webhook: "webhook_set (env_webhook ?w)" and webhook2: "webhook_set (env_webhook ?wb)"
    by (simp_all add: webhook_set_def)
  have tm: "''MAPS'' \<in> fst ` set TARGET_TICKERS" and tg: "''GRWG'' \<in> fst ` set TARGET_TICKERS"
    by (simp_all add: TARGET_TICKERS_def)
  have lm: "latest (env_file ?w) ''MAPS'' = Inr (Some ?pm)"
    by (simp add: latest_def history_of_def eval_detect)
  have lg: "latest (env_file ?w) ''GRWG'' = Inr None"
    by (simp add: latest_def history_of_def eval_detect)
  have lm2: "latest (env_file ?wb) ''MAPS'' = Inr (Some ?pmb)"
    by (simp add: latest_def history_of_def eval_detect)
  have cm: "[''MAPS'' \<mapsto> ?m, ''GRWG'' \<mapsto> ?g] ''MAPS'' = Some ?m" by simp
  have cg: "[''MAPS'' \<mapsto> ?m, ''GRWG'' \<mapsto> ?g] ''GRWG'' = Some ?g" by simp
  have gen: "(prev = None \<longrightarrow> \<not> notified (out_events (main v)) t)
       \<and> (\<forall>p n. prev = Some p \<and> p_shares p = JInt n \<longrightarrow>
             (notified (out_events (main v)) t \<longleftrightarrow> shares cur \<noteq> n))"
    if wh: "webhook_set (env_webhook v)" and f: "out_raised (main v) = None"
      and t: "t \<in> fst ` set TARGET_TICKERS"
      and e: "env_fetch v = Inr [''Ticker,Shares'', ''MAPS,200'', ''GRWG,5'']"
      and d: "env_today v = ''2020-01-02''"
      and c: "[''MAPS'' \<mapsto> ?m, ''GRWG'' \<mapsto> ?g] t = Some cur"
      and l: "latest (env_file v) t = Inr prev" for v t cur prev
  proof -
    from notification_iff_shares_changed [of v t, THEN conjunct2, THEN mp, OF conjI [OF wh conjI [OF f t]]]
    obtain lines cur_h where f': "env_fetch v = Inr lines"
      and p: "parse_csv (env_today v) lines = Inr cur_h"
      and pres: "\<forall>cur. cur_h t = Some cur \<longrightarrow>
                (\<exists>prev. latest (env_file v) t = Inr prev
                   \<and> (prev = None \<longrightarrow> \<not> notified (out_events (main v)) t)
                   \<and> (\<forall>p n. prev = Some p \<and> p_shares p = JInt n \<longrightarrow>
                         (notified (out_events (main v)) t \<longleftrightarrow> shares cur \<noteq> n)
                         \<and> (\<forall>u a. Post u a \<in> set (out_events (main v)) \<and> a_ticker a = t \<longrightarrow>
                               a_delta a = JInt (shares cur - n)
                               \<and> a_percent_change a =
                                   (if n = 0 then JInt 0
                                    else JFloat (round_b64 (of_int (shares cur - n) / of_int n))))))"
      by (elim exE conjE)
    from f' e have "lines = [''Ticker,Shares'', ''MAPS,200'', ''GRWG,5'']" by simp
    with p d have "cur_h = [''MAPS'' \<mapsto> ?m, ''GRWG'' \<mapsto> ?g]" by (simp add: parse_example_shares)
    with c have "cur_h t = Some cur" by simp
    with pres obtain prev' where l': "latest (env_file v) t = Inr prev'"
      and none: "prev' = None \<longrightarrow> \<not> notified (out_events (main v)) t"
      and typed: "\<forall>p n. prev' = Some p \<and> p_shares p = JInt n \<longrightarrow>
                         (notified (out_events (main v)) t \<longleftrightarrow> shares cur \<noteq> n)
                         \<and> (\<forall>u a. Post u a \<in> set (out_events (main v)) \<and> a_ticker a = t \<longrightarrow>
                               a_delta a = JInt (shares cur - n)
                               \<and> a_percent_change a =
                                   (if n = 0 then JInt 0
                                    else JFloat (round_b64 (of_int (shares cur - n) / of_int n))))"
      by blast
    from l l' have "prev' = prev" by simp
    with none typed show ?thesis by blast
  qed
  have e: "env_fetch ?w = Inr [''Ticker,Shares'', ''MAPS,200'', ''GRWG,5'']"
    and e2: "env_fetch ?wb = Inr [''Ticker,Shares'', ''MAPS,200'', ''GRWG,5'']"
    and d: "env_today ?w = ''2020-01-02''" and d2: "env_today ?wb = ''2020-01-02''"
    by simp_all
  have sm: "p_shares ?pm = JInt 100" and sm2: "p_shares ?pmb = JInt 200" by simp_all
  from gen [OF webhook fin tm e d cm lm] sm
  have 1: "notified (out_events (main ?w)) ''MAPS''" by simp
  from gen [OF webhook fin tg e d cg lg]
  have 2: "\<not> notified (out_events (main ?w)) ''GRWG''" by simp
  from gen [OF webhook2 fin2 tm e2 d2 cm lm2] sm2
  have 3: "\<not> notified (out_events (main ?wb)) ''MAPS''" by simp
  have "\<not> webhook_set (env_webhook ?wn)" by (simp add: webhook_set_def)
  with notification_iff_shares_changed [of ?wn "''MAPS''"]
  have 4: "\<not> notified (out_events (main ?wn)) ''MAPS''" by blast
  from 1 2 3 4 show ?thesis by blast
qed









theorem history_append_only_witness:
  "prefix [[JStr ''2020-01-01'', JInt 100, JFloat (Finite 0)]]
     (history_of (out_file (main
        \<lparr> env_fetch = Inr [''Ticker,Shares'', ''MAPS,200'', ''GRWG,5''],
          env_today = ''2020-01-02'',
          env_file = Some \<lparr> doc_fields = Some [''date'', ''shares'', ''weighting''],
                            doc_data = Some [''MAPS'' \<mapsto> [[JStr ''2020-01-01'', JInt 100, JFloat (Finite 0)]]] \<rparr>,
          env_webhook = None, env_transport = (\<lambda>u a. Raises) \<rparr>)) ''MAPS'')
   \<and> history_of (out_file (main
        \<lparr> env_fetch = Inr [''Ticker,Shares'', ''MAPS,200'', ''GRWG,5''],
          env_today = ''2020-01-02'',
          env_file = Some \<lparr> doc_fields = Some [''date'', ''shares'', ''weighting''],
                            doc_data = Some [''MAPS'' \<mapsto> [[JStr ''2020-01-01'', JInt 100, JFloat (Finite 0)]]] \<rparr>,
          env_webhook = None, env_transport = (\<lambda>u a. Raises) \<rparr>)) ''XYZ'' = []"
proof -
  let ?f = "Some \<lparr> doc_fields = Some [''date'', ''shares'', ''weighting''],
                    doc_data = Some [''MAPS'' \<mapsto> [[JStr ''2020-01-01'', JInt 100, JFloat (Finite 0)]]] \<rparr>"
  let ?w = "\<lparr> env_fetch = Inr [''Ticker,Shares'', ''MAPS,200'', ''GRWG,5''],
        env_today = ''2020-01-02'', env_file = ?f,
        env_webhook = None, env_transport = (\<lambda>u a. Raises) \<rparr>"
  have m: "history_of (env_file ?w) ''MAPS'' = [[JStr ''2020-01-01'', JInt 100, JFloat (Finite 0)]]"
    by (simp add: history_of_def load_state_def state_data_def data_get_def)
  have x: "history_of (env_file ?w) ''XYZ'' = []"
    by (simp add: history_of_def load_state_def state_data_def data_get_def)
  have n: "''XYZ'' \<notin> fst ` set TARGET_TICKERS" by (simp add: TARGET_TICKERS_def)
  from history_append_only [of ?w "''MAPS''"] m
  have 1: "prefix [[JStr ''2020-01-01'', JInt 100, JFloat (Finite 0)]]
      (history_of (out_file (main ?w)) ''MAPS'')" by simp
  from history_append_only [of ?w "''XYZ''"] x n
  have 2: "history_of (out_file (main ?w)) ''XYZ'' = []" by simp
  from 1 2 show ?thesis by blast
qed

lemma parse_example_nan:
  "parse_csv ''2020-01-02'' [''Ticker,Shares,Weighting'', ''MAPS,100,nan'']
     = Inr [''MAPS'' \<mapsto> \<lparr> date = ''2020-01-02'', shares = 100, weighting = NaN \<rparr>]"
proof -
  let ?ci = "\<lparr> date_col = - 1, ticker_col = 0, shares_col = 1, weight_col = 2 \<rparr>"
  have hdr: "find_header 0 (take 10 [''Ticker,Shares,Weighting'', ''MAPS,100,nan''])
      = Some (0, [''TICKER'', ''SHARES'', ''WEIGHTING''])"
    by (simp add: eval_strings has_ticker_def has_shares_def)
  have cols: "resolve_columns [''TICKER'', ''SHARES'', ''WEIGHTING''] = Inr ?ci"
    by (simp add: resolve_columns_def list_index_def first_index_def)
  have sc: "split_cols ''MAPS,100,nan'' = [''MAPS'', ''100'', ''nan'']"
    by (simp add: eval_strings)
  have t: "row_ticker ?ci ''MAPS,100,nan'' = Some ''MAPS''"
    by (simp add: row_ticker_def sc py_get_def TARGET_TICKERS_def) (simp add: eval_strings)
  have d: "row_date ?ci ''2020-01-02'' [''MAPS'', ''100'', ''nan''] = Inr ''2020-01-02''"
    by (simp add: row_date_def reformat_date_def month_text_def Let_def)
  have w: "row_weighting ?ci [''MAPS'', ''100'', ''nan''] = NaN"
    by (simp add: row_weighting_def eval_float strip_def isspace_def upper_def upper_char_def)
  have row: "parse_row ?ci ''2020-01-02'' ''MAPS,100,nan'' Map.empty
      = Inr [''MAPS'' \<mapsto> \<lparr> date = ''2020-01-02'', shares = 100, weighting = NaN \<rparr>]"
    by (simp add: parse_row_tracked [OF t] sc d row_shares_100 w)
  show ?thesis
    by (simp add: parse_csv_rows [OF hdr cols] row)
qed

text \<open>
  C5 fails on a feed whose weight field is \<open>nan\<close>: \<open>float\<close> accepts it, the weighting
  is NaN, and NaN differs from itself. The first run stores the record; the second run,
  on the same feed and the stored state, posts nothing but appends the record again.
\<close>

theorem nan_weighting_appended_on_every_run:
  "main \<lparr> env_fetch = Inr [''Ticker,Shares,Weighting'', ''MAPS,100,nan''],
          env_today = ''2020-01-02'', env_file = None,
          env_webhook = Some ''u'', env_transport = (\<lambda>u a. Response 200 []) \<rparr>
     = \<lparr> out_events = [Print_fetching, Print_parsing, Print_loading,
                       Print_first_time ''MAPS'', Print_not_found ''GRWG'', Print_done],
         out_raised = None,
         out_file = Some \<lparr> doc_fields = Some [''date'', ''shares'', ''weighting''],
                            doc_data = Some [''MAPS'' \<mapsto> [[JStr ''2020-01-02'', JInt 100, JFloat NaN]]] \<rparr> \<rparr>
   \<and> main \<lparr> env_fetch = Inr [''Ticker,Shares,Weighting'', ''MAPS,100,nan''],
          env_today = ''2020-01-02'',
          env_file = Some \<lparr> doc_fields = Some [''date'', ''shares'', ''weighting''],
                            doc_data = Some [''MAPS'' \<mapsto> [[JStr ''2020-01-02'', JInt 100, JFloat NaN]]] \<rparr>,
          env_webhook = Some ''u'', env_transport = (\<lambda>u a. Response 200 []) \<rparr>
     = \<lparr> out_events = [Print_fetching, Print_parsing, Print_loading,
                       Print_not_found ''GRWG'', Print_done],
         out_raised = None,
         out_file = Some \<lparr> doc_fields = Some [''date'', ''shares'', ''weighting''],
                            doc_data = Some [''MAPS'' \<mapsto> [[JStr ''2020-01-02'', JInt 100, JFloat NaN],
                                                       [JStr ''2020-01-02'', JInt 100, JFloat NaN]]] \<rparr> \<rparr>"
  by (simp add: eval_detect parse_example_nan eval_alert)

lemma list_index_nth:
  assumes "list_index x xs = Inr i"
  shows "0 \<le> i \<and> i < int (length xs) \<and> xs ! nat i = x"
proof -
  have ex: "list_ex (\<lambda>h. h = x) xs"
  proof (rule ccontr)
    assume "\<not> list_ex (\<lambda>h. h = x) xs"
    then have "first_index (\<lambda>h. h = x) xs = - 1"
      by (simp add: first_index_def first_index_from_none)
    with assms show False by (simp add: list_index_def)
  qed
  from first_index_from_some [OF ex, of 0] assms show ?thesis
    by (auto simp: list_index_def first_index_def Let_def split: if_splits)
qed

lemma list_index_member:
  "x \<in> set xs \<Longrightarrow> \<exists>i. list_index x xs = Inr i"
proof -
  assume "x \<in> set xs"
  then have ex: "list_ex (\<lambda>h. h = x) xs" by (simp add: list_ex_iff)
  from first_index_from_some [OF ex, of 0] show ?thesis
    by (auto simp: list_index_def first_index_def Let_def)
qed

lemma py_get_record_of:
  assumes "list_index x flds = Inr i"
  shows "py_get (record_of flds cur) i = Inr (get_field cur x)"
  using list_index_nth [OF assms] by (auto simp: py_get_def record_of_def)

lemma previous_of_appended:
  assumes si: "list_index ''shares'' flds = Inr si" and wi: "list_index ''weighting'' flds = Inr wi"
  shows "\<exists>d. previous_of flds si wi (h @ [record_of flds cur])
           = Inr (Some \<lparr> p_date = d, p_shares = JInt (shares cur),
                          p_weighting = JFloat (weighting cur) \<rparr>)"
proof (cases "''date'' \<in> set flds")
  case True
  then obtain di where di: "list_index ''date'' flds = Inr di" using list_index_member by blast
  show ?thesis
    using True
    by (simp add: previous_of_def bind_err_def di py_get_record_of [OF di]
        py_get_record_of [OF si] py_get_record_of [OF wi] get_field_def)
next
  case False
  then show ?thesis
    by (simp add: previous_of_def bind_err_def
        py_get_record_of [OF si] py_get_record_of [OF wi] get_field_def)
qed

lemma ticker_step_again:
  assumes si: "list_index ''shares'' flds = Inr si" and wi: "list_index ''weighting'' flds = Inr wi"
    and step: "snd (ticker_step wh tr flds si wi cur_h tc entry) = Inr entry'"
    and nonan: "\<forall>cur. cur_h (fst tc) = Some cur \<longrightarrow> weighting cur \<noteq> NaN"
  shows "snd (ticker_step wh tr' flds si wi cur_h tc entry') = Inr entry'
       \<and> (\<forall>u a. Post u a \<notin> set (fst (ticker_step wh tr' flds si wi cur_h tc entry')))"
proof (cases "cur_h (fst tc)")
  case None
  with step show ?thesis by (simp add: ticker_step_def)
next
  case (Some cur)
  with nonan have w: "weighting cur \<noteq> NaN" by simp
  let ?h = "case entry of Some h \<Rightarrow> h | None \<Rightarrow> []"
  from step Some obtain prev where prev: "previous_of flds si wi ?h = Inr prev"
    and e': "entry' = (if update_needed cur prev then Some (?h @ [record_of flds cur]) else entry)"
    by (auto simp: ticker_step_def split: sum.splits option.splits)
  show ?thesis
  proof (cases "update_needed cur prev")
    case True
    from previous_of_appended [OF si wi, of ?h cur] obtain d where
      p: "previous_of flds si wi (?h @ [record_of flds cur])
           = Inr (Some \<lparr> p_date = d, p_shares = JInt (shares cur),
                          p_weighting = JFloat (weighting cur) \<rparr>)" by blast
    show ?thesis
      using True w
      by (simp add: e' ticker_step_def Some p compare_and_alert_def update_needed_def
          py_ne_def float_eq_def)
  next
    case False
    then obtain p where p: "prev = Some p"
      and eq: "\<not> py_ne (JInt (shares cur)) (p_shares p)"
        "\<not> py_ne (JFloat (weighting cur)) (p_weighting p)"
      by (auto simp: update_needed_def split: option.splits)
    show ?thesis
      using False eq
      by (simp add: e' ticker_step_def Some prev p compare_and_alert_def update_needed_def)
  qed
qed

lemma process_tickers_fixed:
  assumes "\<forall>tc \<in> set tcs. snd (ticker_step wh tr flds si wi cur_h tc (data (fst tc)))
              = Inr (data (fst tc))
            \<and> (\<forall>u a. Post u a \<notin> set (fst (ticker_step wh tr flds si wi cur_h tc (data (fst tc)))))"
  shows "snd (process_tickers wh tr flds si wi cur_h tcs data) = Inr data
       \<and> (\<forall>u a. Post u a \<notin> set (fst (process_tickers wh tr flds si wi cur_h tcs data)))"
  using assms
proof (induction tcs)
  case Nil
  then show ?case by simp
next
  case (Cons tc tcs)
  then have 1: "snd (ticker_step wh tr flds si wi cur_h tc (data (fst tc))) = Inr (data (fst tc))"
    and 2: "\<forall>u a. Post u a \<notin> set (fst (ticker_step wh tr flds si wi cur_h tc (data (fst tc))))"
    and ih: "snd (process_tickers wh tr flds si wi cur_h tcs data) = Inr data
       \<and> (\<forall>u a. Post u a \<notin> set (fst (process_tickers wh tr flds si wi cur_h tcs data)))"
    by simp_all
  have "process_ticker wh tr flds si wi cur_h tc data
      = (fst (ticker_step wh tr flds si wi cur_h tc (data (fst tc))), Inr data)"
    by (simp add: process_ticker_step 1)
  with 2 ih show ?case by simp
qed

text \<open>
  Without NaN the second run changes nothing: after a run that completed, a run on the
  same feed and the state it left completes, leaves the same state and posts nothing,
  provided no parsed weighting is NaN.
\<close>

lemma idempotent_without_nan:
  assumes fin: "out_raised (main w) = None"
    and fetch: "env_fetch w = Inr lines"
    and parse: "parse_csv (env_today w) lines = Inr cur_h"
    and nonan: "\<forall>t cur. cur_h t = Some cur \<longrightarrow> weighting cur \<noteq> NaN"
  shows "out_raised (main (w\<lparr> env_file := out_file (main w) \<rparr>)) = None
       \<and> out_file (main (w\<lparr> env_file := out_file (main w) \<rparr>)) = out_file (main w)
       \<and> (\<forall>t. \<not> notified (out_events (main (w\<lparr> env_file := out_file (main w) \<rparr>))) t)"
proof -
  let ?st = "load_state (env_file w)"
  let ?flds = "state_fields ?st"
  from main_completed [OF fin] fetch parse obtain si wi evs data' where
    si: "list_index ''shares'' ?flds = Inr si" and wi: "list_index ''weighting'' ?flds = Inr wi"
    and pt: "process_tickers (env_webhook w) (env_transport w) ?flds si wi cur_h
           TARGET_TICKERS (state_data ?st) = (evs, Inr data')"
    and ofile: "out_file (main w) = Some (?st\<lparr> doc_data := Some data' \<rparr>)"
    by auto
  let ?st' = "?st\<lparr> doc_data := Some data' \<rparr>"
  let ?w' = "w\<lparr> env_file := out_file (main w) \<rparr>"
  have st': "load_state (env_file ?w') = ?st'" by (simp add: ofile load_state_def)
  have flds': "state_fields ?st' = ?flds" by (simp add: state_fields_def)
  have data': "state_data ?st' = data'" by (simp add: state_data_def)
  note d = process_tickers_distinct [OF distinct_TARGET_TICKERS pt]
  have "\<forall>tc \<in> set TARGET_TICKERS.
      snd (ticker_step (env_webhook w) (env_transport w) ?flds si wi cur_h tc (data' (fst tc)))
        = Inr (data' (fst tc))
      \<and> (\<forall>u a. Post u a \<notin> set (fst (ticker_step (env_webhook w) (env_transport w) ?flds si wi
                                     cur_h tc (data' (fst tc)))))"
  proof
    fix tc assume "tc \<in> set TARGET_TICKERS"
    with d have s: "snd (ticker_step (env_webhook w) (env_transport w) ?flds si wi cur_h tc
        (state_data ?st (fst tc))) = Inr (data' (fst tc))" by blast
    from nonan have n: "\<forall>cur. cur_h (fst tc) = Some cur \<longrightarrow> weighting cur \<noteq> NaN" by blast
    from ticker_step_again [OF si wi s n]
    show "snd (ticker_step (env_webhook w) (env_transport w) ?flds si wi cur_h tc (data' (fst tc)))
        = Inr (data' (fst tc))
      \<and> (\<forall>u a. Post u a \<notin> set (fst (ticker_step (env_webhook w) (env_transport w) ?flds si wi
                                     cur_h tc (data' (fst tc)))))" .
  qed
  from process_tickers_fixed [OF this]
  have fx: "snd (process_tickers (env_webhook w) (env_transport w) ?flds si wi cur_h
               TARGET_TICKERS data') = Inr data'"
    and np: "\<forall>u a. Post u a \<notin> set (fst (process_tickers (env_webhook w) (env_transport w) ?flds si wi
                                     cur_h TARGET_TICKERS data'))"
    by blast+
  obtain evs2 where pt2: "process_tickers (env_webhook w) (env_transport w) ?flds si wi cur_h
               TARGET_TICKERS data' = (evs2, Inr data')"
    using fx by (cases "process_tickers (env_webhook w) (env_transport w) ?flds si wi cur_h
               TARGET_TICKERS data'") simp
  have w': "?w' = w\<lparr> env_file := Some ?st' \<rparr>" by (simp add: ofile)
  have ld: "load_state (Some ?st') = ?st'" by (simp add: load_state_def)
  have m: "main (w\<lparr> env_file := Some ?st' \<rparr>)
      = \<lparr> out_events = [Print_fetching, Print_parsing, Print_loading] @ evs2 @ [Print_done],
          out_raised = None, out_file = Some (?st'\<lparr> doc_data := Some data' \<rparr>) \<rparr>"
    by (simp add: main_def fetch parse detect_def ld flds' data' si wi pt2 Let_def)
  from np pt2 have "\<forall>u a. Post u a \<notin> set evs2" by simp
  then show ?thesis
    unfolding w' by (simp add: m ofile notified_def)
qed

end
